theory Spec2Isabelle
  imports Main
begin

section \<open>Playlist entries of the music bot (musicbot/entry.py)\<close>

text \<open>
  The entry classes of \<^verbatim>\<open>entry.py\<close> are embedded as records, their methods as
  functions that take the entry and the runtime around it and return both, updated.
  The runtime holds what the methods reach outside the entry: the store of asyncio
  futures, the coroutines handed to the event loop, and a trace of the calls made to
  the outside (file system, network, extractor, logger). The answers of the outside
  are the fields of an environment record: one run of a routine sees each call
  answered as a function of its arguments.
\<close>

subsection \<open>Errors, futures, trace\<close>

datatype error =
    ExtractionError error
  | ExtractionErrorMsg string
  | OSError string
  | KeyError string
  | IndexError
  | ValueError string
  | TypeError string
  | AttributeError string
  | InvalidStateError
  | AssertionError string

fun is_extraction_error :: "error \<Rightarrow> bool" where
  "is_extraction_error (ExtractionError _) = True"
| "is_extraction_error (ExtractionErrorMsg _) = True"
| "is_extraction_error _ = False"

text \<open>An asyncio future: pending, cancelled, or done with a result (the identity of
  the entry it was resolved with) or with an exception.\<close>

datatype fut_state = FutPending | FutCancelled | FutResult nat | FutException error

datatype event =
    Makedirs string
  | GetHeader string string
  | ExtractInfo string bool
  | Unlink string
  | Rename string string
  | LogInfo string
  | LogDebug string
  | LogCritical string
  | LogError string error
  | PrintExc error

record runtime =
  futs :: "nat \<Rightarrow> fut_state"
  nfut :: nat
  tasks :: nat
  events :: "event list"

definition emit :: "event \<Rightarrow> runtime \<Rightarrow> runtime" where
  "emit ev r = r\<lparr>events := events r @ [ev]\<rparr>"

subsection \<open>BasePlaylistEntry\<close>

text \<open>\<open>eid\<close> is the identity of the object (\<^verbatim>\<open>__eq__\<close> is \<^verbatim>\<open>is\<close>,
  \<^verbatim>\<open>__hash__\<close> is \<^verbatim>\<open>id(self)\<close>); \<open>waiting_futures\<close> holds the futures by their
  index in the store.\<close>

record base_entry =
  eid :: nat
  filename :: "string option"
  is_downloading :: bool
  waiting_futures :: "nat list"

text \<open>\<^verbatim>\<open>bool(self.filename)\<close>: \<^verbatim>\<open>None\<close> and the empty string are false.\<close>

definition is_downloaded :: "'a base_entry_scheme \<Rightarrow> bool" where
  "is_downloaded e =
     (if is_downloading e then False
      else (case filename e of None \<Rightarrow> False | Some f \<Rightarrow> f \<noteq> []))"

text \<open>\<^verbatim>\<open>asyncio.Future()\<close> takes the next free index of the store;
  \<^verbatim>\<open>asyncio.ensure_future(self._download())\<close> hands one more run of the download
  routine to the event loop, which starts it later.\<close>

definition new_future :: "runtime \<Rightarrow> nat \<times> runtime" where
  "new_future r = (nfut r, r\<lparr>futs := (futs r)(nfut r := FutPending), nfut := Suc (nfut r)\<rparr>)"

definition set_result :: "nat \<Rightarrow> nat \<Rightarrow> runtime \<Rightarrow> error option \<times> runtime" where
  "set_result v f r =
     (if futs r f = FutPending then (None, r\<lparr>futs := (futs r)(f := FutResult v)\<rparr>)
      else (Some InvalidStateError, r))"

definition set_exception :: "error \<Rightarrow> nat \<Rightarrow> runtime \<Rightarrow> error option \<times> runtime" where
  "set_exception x f r =
     (if futs r f = FutPending then (None, r\<lparr>futs := (futs r)(f := FutException x)\<rparr>)
      else (Some InvalidStateError, r))"

definition get_ready_future ::
  "'a base_entry_scheme \<Rightarrow> runtime \<Rightarrow> nat \<times> 'a base_entry_scheme \<times> runtime" where
  "get_ready_future e r =
     (case new_future r of (future, r1) \<Rightarrow>
        if is_downloaded e then
          (future, e, snd (set_result (eid e) future r1))
        else
          (future,
           e\<lparr>waiting_futures := waiting_futures e @ [future]\<rparr>,
           r1\<lparr>tasks := Suc (tasks r1)\<rparr>))"

text \<open>The \<^verbatim>\<open>try: cb(future) except: traceback.print_exc()\<close> of the notification
  loop: a callback returns the runtime it leaves and the exception it raised, if any.\<close>

fun absorb :: "error option \<times> runtime \<Rightarrow> runtime" where
  "absorb (None, r) = r"
| "absorb (Some x, r) = emit (PrintExc x) r"

fun notify :: "(nat \<Rightarrow> runtime \<Rightarrow> error option \<times> runtime) \<Rightarrow> nat list \<Rightarrow> runtime \<Rightarrow> runtime" where
  "notify cb [] r = r"
| "notify cb (future # futures) r =
     (if futs r future = FutCancelled then notify cb futures r
      else notify cb futures (absorb (cb future r)))"

definition for_each_future ::
  "(nat \<Rightarrow> runtime \<Rightarrow> error option \<times> runtime) \<Rightarrow> 'a base_entry_scheme \<Rightarrow> runtime
     \<Rightarrow> 'a base_entry_scheme \<times> runtime" where
  "for_each_future cb e r =
     (let futures = waiting_futures e;
          e1 = e\<lparr>waiting_futures := []\<rparr>
      in (e1, notify cb futures r))"

subsection \<open>Strings, paths, lists\<close>

text \<open>\<^verbatim>\<open>s.split(sep)[0]\<close>, \<^verbatim>\<open>s.rsplit(sep, 1)\<close>, \<^verbatim>\<open>sep.join(parts)\<close>,
  \<^verbatim>\<open>xs.index(x)\<close> and \<^verbatim>\<open>xs[i]\<close>; \<^verbatim>\<open>os.path.basename\<close> and
  \<^verbatim>\<open>os.path.join\<close> are those of \<^verbatim>\<open>posixpath\<close>.\<close>

definition split_first :: "char \<Rightarrow> string \<Rightarrow> string" where
  "split_first sep s = takeWhile (\<lambda>c. c \<noteq> sep) s"

definition rsplit1 :: "char \<Rightarrow> string \<Rightarrow> string list" where
  "rsplit1 sep s =
     (if sep \<in> set s then
        [rev (tl (dropWhile (\<lambda>c. c \<noteq> sep) (rev s))), rev (takeWhile (\<lambda>c. c \<noteq> sep) (rev s))]
      else [s])"

fun str_join :: "string \<Rightarrow> string list \<Rightarrow> string" where
  "str_join sep [] = []"
| "str_join sep [x] = x"
| "str_join sep (x # y # ys) = x @ sep @ str_join sep (y # ys)"

definition basename :: "string \<Rightarrow> string" where
  "basename p = rev (takeWhile (\<lambda>c. c \<noteq> CHR ''/'') (rev p))"

definition path_join :: "string \<Rightarrow> string \<Rightarrow> string" where
  "path_join a b =
     (if b \<noteq> [] \<and> hd b = CHR ''/'' then b
      else if a = [] \<or> last a = CHR ''/'' then a @ b
      else a @ ''/'' @ b)"

definition py_index :: "'a list \<Rightarrow> 'a \<Rightarrow> error + nat" where
  "py_index xs x =
     (if x \<in> set xs then Inr (length (takeWhile (\<lambda>y. y \<noteq> x) xs))
      else Inl (ValueError ''is not in list''))"

definition py_nth :: "'a list \<Rightarrow> nat \<Rightarrow> error + 'a" where
  "py_nth xs i = (if i < length xs then Inr (xs ! i) else Inl IndexError)"

text \<open>\<^verbatim>\<open>int(v)\<close> on a header value (CPython 3.6 and later; the characters are
  ASCII). \<^verbatim>\<open>None\<close> is a TypeError. A string is read with the white space around it
  stripped, an optional sign, then decimal digits, where single underscores may stand
  between digits; more than 4300 digits are refused.\<close>

definition is_space :: "char \<Rightarrow> bool" where
  "is_space c =
     (c \<in> set [CHR '' '', CHR 0x09, CHR 0x0A, CHR 0x0B, CHR 0x0C, CHR 0x0D,
                CHR 0x1C, CHR 0x1D, CHR 0x1E, CHR 0x1F])"

definition is_digit :: "char \<Rightarrow> bool" where
  "is_digit c = (c \<in> set ''0123456789'')"

definition strip :: "string \<Rightarrow> string" where
  "strip s = rev (dropWhile is_space (rev (dropWhile is_space s)))"

definition digits_value :: "string \<Rightarrow> int" where
  "digits_value ds = foldl (\<lambda>n c. 10 * n + (of_char c - 48)) 0 ds"

fun single_underscores :: "string \<Rightarrow> bool" where
  "single_underscores (a # b # cs) =
     (\<not> (a = CHR ''_'' \<and> b = CHR ''_'') \<and> single_underscores (b # cs))"
| "single_underscores cs = True"

definition int_literal :: "string \<Rightarrow> bool" where
  "int_literal ds =
     (ds \<noteq> [] \<and> list_all (\<lambda>c. is_digit c \<or> c = CHR ''_'') ds
      \<and> hd ds \<noteq> CHR ''_'' \<and> last ds \<noteq> CHR ''_'' \<and> single_underscores ds
      \<and> length (filter is_digit ds) \<le> 4300)"

definition py_int :: "string option \<Rightarrow> error + int" where
  "py_int v =
     (case v of
        None \<Rightarrow> Inl (TypeError ''int() argument must be a string or a number'')
      | Some s \<Rightarrow>
          (let t = strip s;
               neg = (t \<noteq> [] \<and> hd t = CHR ''-'');
               ds = (if t \<noteq> [] \<and> (hd t = CHR ''-'' \<or> hd t = CHR ''+'') then tl t else t)
           in if int_literal ds
              then Inr (if neg then - digits_value (filter is_digit ds)
                        else digits_value (filter is_digit ds))
              else Inl (ValueError ''invalid literal for int()'')))"

subsection \<open>The outside: file system, network, extractor\<close>

text \<open>The extractor's result is a dictionary; \<^verbatim>\<open>prepare_filename\<close> (youtube-dl) and
  \<^verbatim>\<open>md5sum\<close> and \<^verbatim>\<open>get_header\<close> (musicbot/utils.py) are not part of entry.py and
  are taken as given. \<^verbatim>\<open>os.path.exists\<close> and \<^verbatim>\<open>os.path.isfile\<close> never raise; every
  other call may. The generic branch lists the folder a second time after it has
  waited for the content-length probe: \<open>listdir_after_probe\<close> answers that call, and
  may differ from what \<open>listdir\<close> answered before.\<close>

type_synonym info = "(string \<times> string) list"

record env =
  path_exists :: "string \<Rightarrow> bool"
  makedirs :: "string \<Rightarrow> error option"
  listdir :: "string \<Rightarrow> error + string list"
  listdir_after_probe :: "string \<Rightarrow> error + string list"
  getsize :: "string \<Rightarrow> error + int"
  isfile :: "string \<Rightarrow> bool"
  get_header :: "string \<Rightarrow> string \<Rightarrow> error + string option"
  extract_info :: "string \<Rightarrow> bool \<Rightarrow> error + info option"
  prepare_filename :: "info \<Rightarrow> string"
  md5sum :: "string \<Rightarrow> nat \<Rightarrow> error + string"
  unlink :: "string \<Rightarrow> error option"
  rename :: "string \<Rightarrow> string \<Rightarrow> error option"

subsection \<open>Owner metadata\<close>

text \<open>A value of the \<^verbatim>\<open>meta\<close> dictionary: an object of the chat library with its class
  name, id and name; \<^verbatim>\<open>None\<close>; or a bare string.\<close>

datatype owner = Obj string string string | PyNone | PyStr string

record meta_ref =
  ref_type :: "string option"
  ref_id :: "string option"
  ref_name :: "string option"

text \<open>\<^verbatim>\<open>{'type': obj.__class__.__name__, 'id': obj.id, 'name': obj.name}\<close>: only
  an object of the chat library has the attributes.\<close>

fun owner_ref :: "owner \<Rightarrow> error + meta_ref" where
  "owner_ref (Obj c i n) = Inr \<lparr>ref_type = Some c, ref_id = Some i, ref_name = Some n\<rparr>"
| "owner_ref PyNone = Inl (AttributeError ''id'')"
| "owner_ref (PyStr s) = Inl (AttributeError ''id'')"

fun meta_json :: "(string \<times> owner) list \<Rightarrow> error + (string \<times> meta_ref) list" where
  "meta_json [] = Inr []"
| "meta_json ((name, obj) # rest) =
     (case owner_ref obj of
        Inl x \<Rightarrow> Inl x
      | Inr ref \<Rightarrow> (case meta_json rest of Inl x \<Rightarrow> Inl x | Inr refs \<Rightarrow> Inr ((name, ref) # refs)))"

text \<open>The playlist an entry is built in: the downloader's folder, and the resolver
  \<^verbatim>\<open>playlist.bot.get_channel(id)\<close> and \<^verbatim>\<open>channel.server.get_member(id)\<close>, which
  answer \<^verbatim>\<open>None\<close> for an id they do not know.\<close>

record playlist =
  pl_download_folder :: string
  get_channel :: "string \<Rightarrow> owner"
  get_member :: "owner \<Rightarrow> string \<Rightarrow> owner"

text \<open>\<^verbatim>\<open>channel.server.get_member(id)\<close>, evaluated left to right: the attribute
  \<^verbatim>\<open>server\<close> of the channel, then the argument (a thunk that may raise KeyError),
  then the call.\<close>

definition server_get_member :: "playlist \<Rightarrow> owner \<Rightarrow> error + string \<Rightarrow> error + owner" where
  "server_get_member pl ch arg =
     (case ch of
        Obj c i n \<Rightarrow> (case arg of Inl x \<Rightarrow> Inl x | Inr a \<Rightarrow> Inr (get_member pl ch a))
      | _ \<Rightarrow> Inl (AttributeError ''server''))"

text \<open>\<^verbatim>\<open>ref['id']\<close> on a stored reference.\<close>

definition ref_id_of :: "meta_ref \<Rightarrow> error + string" where
  "ref_id_of ref = (case ref_id ref of None \<Rightarrow> Inl (KeyError ''id'') | Some i \<Rightarrow> Inr i)"

subsection \<open>URLPlaylistEntry\<close>

record url_entry = base_entry +
  url :: string
  title :: string
  duration :: int
  expected_filename :: "string option"
  meta :: "(string \<times> owner) list"
  download_folder :: string

text \<open>\<^verbatim>\<open>_really_download(hash)\<close>. The result is the exception raised, if any, with
  the entry and the runtime as they are at that point.\<close>

definition hashed_name :: "string \<Rightarrow> string \<Rightarrow> string" where
  "hashed_name h unhashed_fname = str_join (str_join h [''-'', ''.'']) (rsplit1 CHR ''.'' unhashed_fname)"

definition really_download ::
  "env \<Rightarrow> bool \<Rightarrow> url_entry \<Rightarrow> runtime \<Rightarrow> error option \<times> url_entry \<times> runtime" where
  "really_download env hash e r =
     (let r1 = emit (ExtractInfo (url e) True) (emit (LogInfo (''Download started: '' @ url e)) r)
      in case extract_info env (url e) True of
           Inl x \<Rightarrow> (Some (ExtractionError x), e, r1)
         | Inr result \<Rightarrow>
             (let r2 = emit (LogInfo (''Download complete: '' @ url e)) r1
              in case result of
                   None \<Rightarrow>
                     (Some (ExtractionErrorMsg ''ytdl broke and hell if I know why''), e,
                      emit (LogCritical ''YTDL has failed, everyone panic'') r2)
                 | Some res \<Rightarrow>
                     (let unhashed_fname = prepare_filename env res;
                          e1 = e\<lparr>filename := Some unhashed_fname\<rparr>
                      in if hash then
                           (case md5sum env unhashed_fname 8 of
                              Inl x \<Rightarrow> (Some x, e1, r2)
                            | Inr h \<Rightarrow>
                                (let hashed = hashed_name h unhashed_fname;
                                     e2 = e1\<lparr>filename := Some hashed\<rparr>
                                 in if isfile env hashed then
                                      (unlink env unhashed_fname, e2, emit (Unlink unhashed_fname) r2)
                                    else
                                      (rename env unhashed_fname hashed, e2,
                                       emit (Rename unhashed_fname hashed) r2)))
                         else (None, e1, r2))))"

text \<open>\<^verbatim>\<open>int(await get_header(session, url, 'CONTENT-LENGTH'))\<close> under its bare
  \<^verbatim>\<open>except\<close>.\<close>

definition remote_size :: "env \<Rightarrow> string \<Rightarrow> int" where
  "remote_size env u =
     (case get_header env u ''CONTENT-LENGTH'' of
        Inl x \<Rightarrow> 0
      | Inr v \<Rightarrow> (case py_int v of Inl x \<Rightarrow> 0 | Inr n \<Rightarrow> n))"

text \<open>The branch of \<^verbatim>\<open>_download\<close> for the generic extractor; \<open>base\<close> is
  \<^verbatim>\<open>os.path.basename(self.expected_filename)\<close>.\<close>

definition download_generic ::
  "env \<Rightarrow> string \<Rightarrow> url_entry \<Rightarrow> runtime \<Rightarrow> error option \<times> url_entry \<times> runtime" where
  "download_generic env base e r =
     (case listdir env (download_folder e) of
        Inl x \<Rightarrow> (Some x, e, r)
      | Inr ldir \<Rightarrow>
          (let flistdir = map (\<lambda>f. hd (rsplit1 CHR ''-'' f)) ldir
           in case rsplit1 CHR ''.'' base of
                [expected_fname_noex, fname_ex] \<Rightarrow>
                  if expected_fname_noex \<in> set flistdir then
                    (let r1 = emit (GetHeader (url e) ''CONTENT-LENGTH'') r;
                         rsize = remote_size env (url e)
                     in case listdir_after_probe env (download_folder e) of
                          Inl x \<Rightarrow> (Some x, e, r1)
                        | Inr ldir2 \<Rightarrow>
                            (case py_index flistdir expected_fname_noex of
                               Inl x \<Rightarrow> (Some x, e, r1)
                             | Inr i \<Rightarrow>
                                 (case py_nth ldir2 i of
                                    Inl x \<Rightarrow> (Some x, e, r1)
                                  | Inr name \<Rightarrow>
                                      (let lfile = path_join (download_folder e) name
                                       in case getsize env lfile of
                                            Inl x \<Rightarrow> (Some x, e, r1)
                                          | Inr lsize \<Rightarrow>
                                              if lsize \<noteq> rsize then really_download env True e r1
                                              else (None, e\<lparr>filename := Some lfile\<rparr>, r1)))))
                  else really_download env True e r
              | _ \<Rightarrow> (Some (ValueError ''not enough values to unpack''), e, r)))"

text \<open>The branch for every other extractor.\<close>

definition download_cached ::
  "env \<Rightarrow> string \<Rightarrow> string \<Rightarrow> url_entry \<Rightarrow> runtime \<Rightarrow> error option \<times> url_entry \<times> runtime" where
  "download_cached env efn expected_fname_base e r =
     (case listdir env (download_folder e) of
        Inl x \<Rightarrow> (Some x, e, r)
      | Inr ldir \<Rightarrow>
          (let flistdir = map (\<lambda>f. hd (rsplit1 CHR ''.'' f)) ldir;
               expected_fname_noex = hd (rsplit1 CHR ''.'' expected_fname_base)
           in if expected_fname_base \<in> set ldir then
                (None,
                 e\<lparr>filename := Some (path_join (download_folder e) expected_fname_base)\<rparr>,
                 emit (LogInfo (''Download cached: '' @ url e)) r)
              else if expected_fname_noex \<in> set flistdir then
                (let r1 = emit (LogInfo (''Download cached (different extension): '' @ url e)) r
                 in case py_index flistdir expected_fname_noex of
                      Inl x \<Rightarrow> (Some x, e, r1)
                    | Inr i \<Rightarrow>
                        (case py_nth ldir i of
                           Inl x \<Rightarrow> (Some x, e, r1)
                         | Inr name \<Rightarrow>
                             (let fn = path_join (download_folder e) name
                              in (None, e\<lparr>filename := Some fn\<rparr>,
                                  emit (LogDebug (''Expected '' @ last (rsplit1 CHR ''.'' efn)
                                                  @ '', got '' @ last (rsplit1 CHR ''.'' fn))) r1))))
              else really_download env False e r))"

text \<open>\<^verbatim>\<open>if not os.path.exists(folder): os.makedirs(folder)\<close>.\<close>

definition ensure_folder :: "env \<Rightarrow> url_entry \<Rightarrow> runtime \<Rightarrow> error option \<times> runtime" where
  "ensure_folder env e r =
     (if path_exists env (download_folder e) then (None, r)
      else (makedirs env (download_folder e), emit (Makedirs (download_folder e)) r))"

text \<open>The body of the \<^verbatim>\<open>try\<close> of \<^verbatim>\<open>_download\<close>, up to the ready callbacks.\<close>

definition url_attempt ::
  "env \<Rightarrow> url_entry \<Rightarrow> runtime \<Rightarrow> error option \<times> url_entry \<times> runtime" where
  "url_attempt env e r =
     (case ensure_folder env e r of
        (Some x, r1) \<Rightarrow> (Some x, e, r1)
      | (None, r1) \<Rightarrow>
          (case expected_filename e of
             None \<Rightarrow> (Some (TypeError ''expected str, bytes or os.PathLike object''), e, r1)
           | Some efn \<Rightarrow>
               (let extractor = split_first CHR ''-'' (basename efn)
                in if extractor = ''generic'' then download_generic env (basename efn) e r1
                   else download_cached env efn (basename efn) e r1)))"

text \<open>\<^verbatim>\<open>URLPlaylistEntry._download\<close>: the guard, the attempt, the callbacks on
  success or in the \<^verbatim>\<open>except Exception\<close> handler, and the \<^verbatim>\<open>finally\<close>.\<close>

definition url_download :: "env \<Rightarrow> url_entry \<Rightarrow> runtime \<Rightarrow> url_entry \<times> runtime" where
  "url_download env e r =
     (if is_downloading e then (e, r)
      else
        (case url_attempt env (e\<lparr>is_downloading := True\<rparr>) r of
           (None, e1, r1) \<Rightarrow>
             (case for_each_future (set_result (eid e1)) e1 r1 of
                (e2, r2) \<Rightarrow> (e2\<lparr>is_downloading := False\<rparr>, r2))
         | (Some x, e1, r1) \<Rightarrow>
             (case for_each_future (set_exception x) e1 (emit (PrintExc x) r1) of
                (e2, r2) \<Rightarrow> (e2\<lparr>is_downloading := False\<rparr>, r2))))"

subsection \<open>StreamPlaylistEntry\<close>

record stream_entry = base_entry +
  stream_url :: string
  source_url :: "string option"
  stream_title :: string
  direct :: bool
  stream_duration :: int
  stream_meta :: "(string \<times> owner) list"

text \<open>\<^verbatim>\<open>StreamPlaylistEntry._download\<close>: no guard, no callbacks; an exception leaves
  the routine. \<^verbatim>\<open>result['url']\<close> stands in the \<^verbatim>\<open>else\<close> clause, which the
  \<^verbatim>\<open>except\<close> does not cover.\<close>

definition stream_download ::
  "env \<Rightarrow> stream_entry \<Rightarrow> runtime \<Rightarrow> error option \<times> stream_entry \<times> runtime" where
  "stream_download env e r =
     (let e1 = e\<lparr>is_downloading := True\<rparr>;
          r1 = emit (ExtractInfo (stream_url e1) False) r
      in case extract_info env (stream_url e1) False of
           Inl x \<Rightarrow> (Some (ExtractionError x), e1\<lparr>is_downloading := False\<rparr>, r1)
         | Inr None \<Rightarrow>
             (Some (TypeError ''NoneType object is not subscriptable''),
              e1\<lparr>is_downloading := False\<rparr>, r1)
         | Inr (Some res) \<Rightarrow>
             (case map_of res ''url'' of
                None \<Rightarrow> (Some (KeyError ''url''), e1\<lparr>is_downloading := False\<rparr>, r1)
              | Some u \<Rightarrow> (None, e1\<lparr>filename := Some u, is_downloading := False\<rparr>, r1)))"

subsection \<open>Persistence of URLPlaylistEntry\<close>

text \<open>The persisted record is a dictionary: a field is \<open>None\<close> when its key is absent.
  The values of \<^verbatim>\<open>filename\<close> and \<^verbatim>\<open>expected_filename\<close> may themselves be
  \<^verbatim>\<open>null\<close>.\<close>

record url_data =
  d_version :: "int option"
  d_url :: "string option"
  d_title :: "string option"
  d_duration :: "int option"
  d_downloaded :: "bool option"
  d_expected_filename :: "string option option"
  d_filename :: "string option option"
  d_meta :: "(string \<times> meta_ref) list option"

definition url_json :: "url_entry \<Rightarrow> error + url_data" where
  "url_json e =
     (case meta_json (meta e) of
        Inl x \<Rightarrow> Inl x
      | Inr refs \<Rightarrow>
          Inr \<lparr>d_version = Some 1,
               d_url = Some (url e),
               d_title = Some (title e),
               d_duration = Some (duration e),
               d_downloaded = Some (is_downloaded e),
               d_expected_filename = Some (expected_filename e),
               d_filename = Some (filename e),
               d_meta = Some refs\<rparr>)"

definition url_init ::
  "nat \<Rightarrow> playlist \<Rightarrow> string \<Rightarrow> string \<Rightarrow> int \<Rightarrow> string option \<Rightarrow> (string \<times> owner) list
     \<Rightarrow> url_entry" where
  "url_init oid pl u t dur efn m =
     \<lparr>eid = oid, filename = None, is_downloading = False, waiting_futures = [],
      url = u, title = t, duration = dur, expected_filename = efn, meta = m,
      download_folder = pl_download_folder pl\<rparr>"

text \<open>The two \<^verbatim>\<open>if ... in data['meta']\<close> of \<^verbatim>\<open>URLPlaylistEntry._deserialize\<close>.\<close>

definition url_meta :: "playlist \<Rightarrow> (string \<times> meta_ref) list \<Rightarrow> error + (string \<times> owner) list" where
  "url_meta pl m =
     (case (case map_of m ''channel'' of
              None \<Rightarrow> Inr []
            | Some cref \<Rightarrow>
                (case ref_id_of cref of
                   Inl x \<Rightarrow> Inl x
                 | Inr i \<Rightarrow> Inr [(''channel'', get_channel pl i)])) of
        Inl x \<Rightarrow> Inl x
      | Inr meta1 \<Rightarrow>
          (case map_of m ''author'' of
             None \<Rightarrow> Inr meta1
           | Some aref \<Rightarrow>
               (case map_of meta1 ''channel'' of
                  None \<Rightarrow> Inl (KeyError ''channel'')
                | Some ch \<Rightarrow>
                    (case server_get_member pl ch (ref_id_of aref) of
                       Inl x \<Rightarrow> Inl x
                     | Inr a \<Rightarrow> Inr (meta1 @ [(''author'', a)])))))"

definition url_fields :: "nat \<Rightarrow> playlist \<Rightarrow> url_data \<Rightarrow> error + url_entry" where
  "url_fields oid pl data =
     (case d_url data of None \<Rightarrow> Inl (KeyError ''url'') | Some u \<Rightarrow>
      case d_title data of None \<Rightarrow> Inl (KeyError ''title'') | Some t \<Rightarrow>
      case d_duration data of None \<Rightarrow> Inl (KeyError ''duration'') | Some dur \<Rightarrow>
      case d_downloaded data of None \<Rightarrow> Inl (KeyError ''downloaded'') | Some downloaded \<Rightarrow>
      case (if downloaded
            then (case d_filename data of None \<Rightarrow> Inl (KeyError ''filename'') | Some f \<Rightarrow> Inr f)
            else Inr None) of Inl x \<Rightarrow> Inl x | Inr fname \<Rightarrow>
      case d_expected_filename data of None \<Rightarrow> Inl (KeyError ''expected_filename'') | Some efn \<Rightarrow>
      case d_meta data of None \<Rightarrow> Inl (KeyError ''meta'') | Some m \<Rightarrow>
      case url_meta pl m of Inl x \<Rightarrow> Inl x | Inr mt \<Rightarrow>
        Inr ((url_init oid pl u t dur efn mt)\<lparr>filename := fname, is_downloading := False\<rparr>))"

text \<open>\<^verbatim>\<open>URLPlaylistEntry._deserialize\<close>: the assertion is outside the \<^verbatim>\<open>try\<close>;
  inside, any exception is logged and the method returns \<^verbatim>\<open>None\<close>. \<open>oid\<close> is the
  identity the interpreter gives to the entry constructed. The result carries the
  lines logged.\<close>

definition url_deserialize ::
  "nat \<Rightarrow> url_data \<Rightarrow> playlist option \<Rightarrow> error + (url_entry option \<times> event list)" where
  "url_deserialize oid data pl_opt =
     (case pl_opt of
        None \<Rightarrow> Inl (AssertionError ''playlist'')
      | Some pl \<Rightarrow>
          (case url_fields oid pl data of
             Inl x \<Rightarrow> Inr (None, [LogError ''Could not load URLPlaylistEntry'' x])
           | Inr e \<Rightarrow> Inr (Some e, [])))"

subsection \<open>Persistence of StreamPlaylistEntry\<close>

record stream_data =
  sd_version :: "int option"
  sd_url :: "string option"
  sd_title :: "string option"
  sd_direct :: "bool option"
  sd_meta :: "(string \<times> meta_ref) list option"

definition stream_json :: "stream_entry \<Rightarrow> error + stream_data" where
  "stream_json e =
     (case meta_json (stream_meta e) of
        Inl x \<Rightarrow> Inl x
      | Inr refs \<Rightarrow>
          Inr \<lparr>sd_version = Some 1,
               sd_url = Some (stream_url e),
               sd_title = Some (stream_title e),
               sd_direct = Some (direct e),
               sd_meta = Some refs\<rparr>)"

definition stream_init ::
  "nat \<Rightarrow> string \<Rightarrow> string \<Rightarrow> bool \<Rightarrow> string option \<Rightarrow> (string \<times> owner) list \<Rightarrow> stream_entry" where
  "stream_init oid u t d src m =
     \<lparr>eid = oid, filename = (if d then Some u else None), is_downloading = False,
      waiting_futures = [],
      stream_url = u, source_url = src, stream_title = t, direct = d, stream_duration = 0,
      stream_meta = m\<rparr>"

text \<open>The property \<^verbatim>\<open>url\<close>: \<^verbatim>\<open>self.source_url or self._url\<close>.\<close>

definition stream_public_url :: "stream_entry \<Rightarrow> string" where
  "stream_public_url e =
     (case source_url e of None \<Rightarrow> stream_url e | Some s \<Rightarrow> if s = [] then stream_url e else s)"

fun truthy :: "owner \<Rightarrow> bool" where
  "truthy (Obj c i n) = True"
| "truthy PyNone = False"
| "truthy (PyStr s) = (s \<noteq> [])"

text \<open>\<^verbatim>\<open>meta['channel'] = ch or data['meta']['channel']['name']\<close>, then the author
  as for the URL entry.\<close>

definition stream_meta_of :: "playlist \<Rightarrow> (string \<times> meta_ref) list \<Rightarrow> error + (string \<times> owner) list" where
  "stream_meta_of pl m =
     (case (case map_of m ''channel'' of
              None \<Rightarrow> Inr []
            | Some cref \<Rightarrow>
                (case ref_id_of cref of
                   Inl x \<Rightarrow> Inl x
                 | Inr i \<Rightarrow>
                     (let ch = get_channel pl i
                      in if truthy ch then Inr [(''channel'', ch)]
                         else (case ref_name cref of
                                 None \<Rightarrow> Inl (KeyError ''name'')
                               | Some n \<Rightarrow> Inr [(''channel'', PyStr n)])))) of
        Inl x \<Rightarrow> Inl x
      | Inr meta1 \<Rightarrow>
          (case map_of m ''author'' of
             None \<Rightarrow> Inr meta1
           | Some aref \<Rightarrow>
               (case map_of meta1 ''channel'' of
                  None \<Rightarrow> Inl (KeyError ''channel'')
                | Some ch \<Rightarrow>
                    (case server_get_member pl ch (ref_id_of aref) of
                       Inl x \<Rightarrow> Inl x
                     | Inr a \<Rightarrow> Inr (meta1 @ [(''author'', a)])))))"

definition stream_fields :: "nat \<Rightarrow> playlist \<Rightarrow> stream_data \<Rightarrow> error + stream_entry" where
  "stream_fields oid pl data =
     (case sd_url data of None \<Rightarrow> Inl (KeyError ''url'') | Some u \<Rightarrow>
      case sd_title data of None \<Rightarrow> Inl (KeyError ''title'') | Some t \<Rightarrow>
      case sd_direct data of None \<Rightarrow> Inl (KeyError ''direct'') | Some d \<Rightarrow>
      case sd_meta data of None \<Rightarrow> Inl (KeyError ''meta'') | Some m \<Rightarrow>
      case stream_meta_of pl m of Inl x \<Rightarrow> Inl x | Inr mt \<Rightarrow>
        Inr (stream_init oid u t d None mt))"

definition stream_deserialize ::
  "nat \<Rightarrow> stream_data \<Rightarrow> playlist option \<Rightarrow> error + (stream_entry option \<times> event list)" where
  "stream_deserialize oid data pl_opt =
     (case pl_opt of
        None \<Rightarrow> Inl (AssertionError ''playlist'')
      | Some pl \<Rightarrow>
          (case stream_fields oid pl data of
             Inl x \<Rightarrow> Inr (None, [LogError ''Could not load StreamPlaylistEntry'' x])
           | Inr e \<Rightarrow> Inr (Some e, [])))"

subsection \<open>Loading a batch, and what the properties observe\<close>

text \<open>Modelled from the spec: the loader of a batch of persisted records is not part
  of entry.py. Each record is deserialized on its own; a record for which
  deserialization returns nothing is dropped and the rest of the batch continues.
  The entries constructed get consecutive identities.\<close>

fun load_batch ::
  "(nat \<Rightarrow> 'd \<Rightarrow> error + ('e option \<times> event list)) \<Rightarrow> nat \<Rightarrow> 'd list \<Rightarrow> 'e list" where
  "load_batch deserialize oid [] = []"
| "load_batch deserialize oid (d # ds) =
     (case deserialize oid d of
        Inr (Some e, lg) \<Rightarrow> e # load_batch deserialize (Suc oid) ds
      | _ \<Rightarrow> load_batch deserialize (Suc oid) ds)"

text \<open>Serializing an entry and deserializing the record.\<close>

definition url_roundtrip ::
  "nat \<Rightarrow> playlist \<Rightarrow> url_entry \<Rightarrow> error + (url_entry option \<times> event list)" where
  "url_roundtrip oid pl e =
     (case url_json e of Inl x \<Rightarrow> Inl x | Inr d \<Rightarrow> url_deserialize oid d (Some pl))"

definition stream_roundtrip ::
  "nat \<Rightarrow> playlist \<Rightarrow> stream_entry \<Rightarrow> error + (stream_entry option \<times> event list)" where
  "stream_roundtrip oid pl e =
     (case stream_json e of Inl x \<Rightarrow> Inl x | Inr d \<Rightarrow> stream_deserialize oid d (Some pl))"

text \<open>The calls of the extractor's fetch operation (\<^verbatim>\<open>extract_info\<close> with
  \<^verbatim>\<open>download=True\<close>) in a trace.\<close>

fun is_fetch :: "event \<Rightarrow> bool" where
  "is_fetch (ExtractInfo u download) = download"
| "is_fetch _ = False"

definition fetch_calls :: "runtime \<Rightarrow> nat" where
  "fetch_calls r = length (filter is_fetch (events r))"

text \<open>A live object of the chat library, as opposed to \<^verbatim>\<open>None\<close> or a string.\<close>

fun is_obj :: "owner \<Rightarrow> bool" where
  "is_obj (Obj c i n) = True"
| "is_obj _ = False"

text \<open>What a full fetch is, in the words of the specification (4.2, step 5), as a
  property of the outcome \<open>out\<close> of an attempt that started the fetch on runtime \<open>r\<close>:
  the extractor's fetch operation is called once; an exception of the extractor is
  raised again as an ExtractionError and a null result raises an ExtractionError,
  the file name being left as it was; on a result, without hash-disambiguation the
  prepared file name becomes the file name and the attempt ends normally; with it,
  the file name is the prepared one if hashing raises, and otherwise, for a prepared
  name \<open>name.ext\<close> and hash fragment \<open>h\<close>, the file name is \<open>name-h.ext\<close>, and the
  last call is the unlink of the fetched file if a file exists at that path, and the
  rename of the fetched file to that path if none does.\<close>

definition full_fetch ::
  "env \<Rightarrow> bool \<Rightarrow> url_entry \<Rightarrow> runtime \<Rightarrow> error option \<times> url_entry \<times> runtime \<Rightarrow> bool" where
  "full_fetch env hash e r out =
     (fetch_calls (snd (snd out)) = Suc (fetch_calls r)
      \<and> ExtractInfo (url e) True \<in> set (events (snd (snd out)))
      \<and> (case extract_info env (url e) True of
            Inl x \<Rightarrow>
              fst out = Some (ExtractionError x) \<and> filename (fst (snd out)) = filename e
          | Inr None \<Rightarrow>
              fst out = Some (ExtractionErrorMsg ''ytdl broke and hell if I know why'')
              \<and> filename (fst (snd out)) = filename e
          | Inr (Some res) \<Rightarrow>
              if hash then
                (case md5sum env (prepare_filename env res) 8 of
                   Inl x \<Rightarrow>
                     fst out = Some x
                     \<and> filename (fst (snd out)) = Some (prepare_filename env res)
                 | Inr h \<Rightarrow>
                     (\<forall>name ext.
                        prepare_filename env res = name @ ''.'' @ ext \<and> CHR ''.'' \<notin> set ext
                        \<longrightarrow> filename (fst (snd out)) = Some (name @ ''-'' @ h @ ''.'' @ ext)
                          \<and> (if isfile env (name @ ''-'' @ h @ ''.'' @ ext)
                             then fst out = unlink env (prepare_filename env res)
                                \<and> last (events (snd (snd out)))
                                    = Unlink (prepare_filename env res)
                             else fst out = rename env (prepare_filename env res)
                                              (name @ ''-'' @ h @ ''.'' @ ext)
                                \<and> last (events (snd (snd out)))
                                    = Rename (prepare_filename env res)
                                        (name @ ''-'' @ h @ ''.'' @ ext))))
              else fst out = None
                 \<and> filename (fst (snd out)) = Some (prepare_filename env res)))"

text \<open>When a record does not load, in terms of the record and the resolver alone. A
  field that the deserializer reads is absent; or the owner block cannot be rebuilt:
  the channel has no id; or an author is named and the channel is absent, is not found
  by the resolver, or the author has no id. For a stream record the channel that the
  resolver does not find is replaced by its stored name, which must then be there.\<close>

definition url_fields_absent :: "url_data \<Rightarrow> bool" where
  "url_fields_absent d =
     (d_url d = None \<or> d_title d = None \<or> d_duration d = None \<or> d_downloaded d = None
      \<or> (d_downloaded d = Some True \<and> d_filename d = None)
      \<or> d_expected_filename d = None \<or> d_meta d = None)"

definition url_meta_unloadable :: "playlist \<Rightarrow> (string \<times> meta_ref) list \<Rightarrow> bool" where
  "url_meta_unloadable pl m =
     (case map_of m ''channel'' of
        None \<Rightarrow> map_of m ''author'' \<noteq> None
      | Some cref \<Rightarrow>
          (case ref_id cref of
             None \<Rightarrow> True
           | Some i \<Rightarrow>
               (case map_of m ''author'' of
                  None \<Rightarrow> False
                | Some aref \<Rightarrow> \<not> is_obj (get_channel pl i) \<or> ref_id aref = None)))"

definition url_unloadable :: "playlist \<Rightarrow> url_data \<Rightarrow> bool" where
  "url_unloadable pl d =
     (url_fields_absent d
      \<or> (case d_meta d of None \<Rightarrow> True | Some m \<Rightarrow> url_meta_unloadable pl m))"

definition stream_fields_absent :: "stream_data \<Rightarrow> bool" where
  "stream_fields_absent d =
     (sd_url d = None \<or> sd_title d = None \<or> sd_direct d = None \<or> sd_meta d = None)"

definition stream_meta_unloadable :: "playlist \<Rightarrow> (string \<times> meta_ref) list \<Rightarrow> bool" where
  "stream_meta_unloadable pl m =
     (case map_of m ''channel'' of
        None \<Rightarrow> map_of m ''author'' \<noteq> None
      | Some cref \<Rightarrow>
          (case ref_id cref of
             None \<Rightarrow> True
           | Some i \<Rightarrow>
               (\<not> truthy (get_channel pl i) \<and> ref_name cref = None)
               \<or> (case map_of m ''author'' of
                     None \<Rightarrow> False
                   | Some aref \<Rightarrow> \<not> is_obj (get_channel pl i) \<or> ref_id aref = None)))"

definition stream_unloadable :: "playlist \<Rightarrow> stream_data \<Rightarrow> bool" where
  "stream_unloadable pl d =
     (stream_fields_absent d
      \<or> (case sd_meta d of None \<Rightarrow> True | Some m \<Rightarrow> stream_meta_unloadable pl m))"

subsection \<open>Concrete entries, runtimes and environments\<close>

definition ready_entry :: base_entry where
  "ready_entry =
     \<lparr>eid = 7, filename = Some ''audio_cache/youtube-a-b.m4a'', is_downloading = False,
      waiting_futures = []\<rparr>"

definition idle_runtime :: runtime where
  "idle_runtime = \<lparr>futs = (\<lambda>f. FutPending), nfut = 0, tasks = 0, events = []\<rparr>"

text \<open>Three handles requested while downloading: one live, one cancelled, one that its
  holder has resolved already.\<close>

definition fanout_entry :: base_entry where
  "fanout_entry =
     \<lparr>eid = 7, filename = Some ''a.m4a'', is_downloading = True, waiting_futures = [0, 1, 2]\<rparr>"

definition fanout_runtime :: runtime where
  "fanout_runtime =
     \<lparr>futs = (\<lambda>f. FutPending)(1 := FutCancelled, 2 := FutResult 3), nfut = 3, tasks = 0,
      events = []\<rparr>"

text \<open>An environment with an empty download folder, where the extractor delivers a
  result but the file it names cannot be read; and one where the extractor fails.\<close>

definition cache_env :: env where
  "cache_env =
     \<lparr>path_exists = (\<lambda>p. True), makedirs = (\<lambda>p. None), listdir = (\<lambda>p. Inr []),
      listdir_after_probe = (\<lambda>p. Inr []),
      getsize = (\<lambda>p. Inr 0), isfile = (\<lambda>p. False), get_header = (\<lambda>u h. Inr None),
      extract_info = (\<lambda>u d. Inr (Some [(''url'', ''http://cdn/live'')])),
      prepare_filename = (\<lambda>i. ''audio_cache/generic-x-song.mp3''),
      md5sum = (\<lambda>p n. Inl (OSError ''No such file or directory'')),
      unlink = (\<lambda>p. None), rename = (\<lambda>p q. None)\<rparr>"

definition offline_env :: env where
  "offline_env = cache_env\<lparr>extract_info := (\<lambda>u d. Inl (OSError ''unreachable''))\<rparr>"

definition pending_generic :: url_entry where
  "pending_generic =
     \<lparr>eid = 7, filename = None, is_downloading = False, waiting_futures = [0],
      url = ''http://host/song.mp3'', title = ''song'', duration = 0,
      expected_filename = Some ''audio_cache/generic-x-song.mp3'', meta = [],
      download_folder = ''audio_cache''\<rparr>"

definition one_waiter :: runtime where
  "one_waiter = \<lparr>futs = (\<lambda>f. FutPending), nfut = 1, tasks = 1, events = []\<rparr>"

text \<open>The same entry with a second handle, which its holder has cancelled.\<close>

definition pending_generic_pair :: url_entry where
  "pending_generic_pair = pending_generic\<lparr>waiting_futures := [0, 1]\<rparr>"

definition cancelled_waiter :: runtime where
  "cancelled_waiter =
     \<lparr>futs = (\<lambda>f. FutPending)(1 := FutCancelled), nfut = 2, tasks = 2, events = []\<rparr>"

definition pending_stream :: stream_entry where
  "pending_stream =
     \<lparr>eid = 8, filename = None, is_downloading = False, waiting_futures = [0],
      stream_url = ''http://radio/live'', source_url = None, stream_title = ''radio'',
      direct = False, stream_duration = 0, stream_meta = []\<rparr>"

text \<open>A download folder that holds a hashed file of the generic extractor and a file
  of another extractor under another extension; the remote size is that of the local
  file, and the hash of a fetched file is \<open>1a2b3c4d\<close>.\<close>

definition hit_env :: env where
  "hit_env = cache_env
     \<lparr>listdir := (\<lambda>p. Inr [''youtube-a-b.webm'', ''generic-x-song-1a2b3c4d.mp3'']),
      listdir_after_probe := (\<lambda>p. Inr [''youtube-a-b.webm'', ''generic-x-song-1a2b3c4d.mp3'']),
      getsize := (\<lambda>p. Inr 1234),
      get_header := (\<lambda>u h. Inr (Some ''1234'')),
      md5sum := (\<lambda>p n. Inr ''1a2b3c4d'')\<rparr>"

definition tube_env :: env where
  "tube_env = hit_env\<lparr>listdir := (\<lambda>p. Inr [''youtube-a-b.m4a''])\<rparr>"


definition empty_tube_env :: env where
  "empty_tube_env = tube_env
     \<lparr>listdir := (\<lambda>p. Inr []), prepare_filename := (\<lambda>i. ''audio_cache/youtube-a-b.m4a'')\<rparr>"

definition locked_env :: env where
  "locked_env = hit_env
     \<lparr>listdir := (\<lambda>p. Inr []), listdir_after_probe := (\<lambda>p. Inr []),
      rename := (\<lambda>p q. Some (OSError ''Permission denied''))\<rparr>"

definition pending_youtube :: url_entry where
  "pending_youtube = pending_generic
     \<lparr>url := ''http://tube/watch?v=a'',
      expected_filename := Some ''audio_cache/youtube-a-b.m4a''\<rparr>"

definition busy_stream :: stream_entry where
  "busy_stream = pending_stream\<lparr>is_downloading := True\<rparr>"

definition resolved_stream :: stream_entry where
  "resolved_stream = pending_stream
     \<lparr>filename := Some ''http://cdn/live'', source_url := Some ''http://radio/page'',
      direct := True\<rparr>"

text \<open>A resolver that knows every id, and one that knows channel 10 and member 42
  only.\<close>

definition total_playlist :: playlist where
  "total_playlist =
     \<lparr>pl_download_folder = ''audio_cache'',
      get_channel = (\<lambda>i. Obj ''Channel'' i ''general''),
      get_member = (\<lambda>ch i. Obj ''Member'' i ''bob'')\<rparr>"

definition sparse_playlist :: playlist where
  "sparse_playlist =
     \<lparr>pl_download_folder = ''audio_cache'',
      get_channel = (\<lambda>i. if i = ''10'' then Obj ''Channel'' ''10'' ''general'' else PyNone),
      get_member = (\<lambda>ch i. if i = ''42'' then Obj ''Member'' ''42'' ''bob'' else PyNone)\<rparr>"

definition ready_author_only :: url_entry where
  "ready_author_only = pending_youtube
     \<lparr>filename := Some ''audio_cache/youtube-a-b.m4a'',
      meta := [(''author'', Obj ''Member'' ''42'' ''bob'')]\<rparr>"

definition ready_owned :: url_entry where
  "ready_owned = pending_youtube
     \<lparr>filename := Some ''audio_cache/youtube-a-b.m4a'',
      meta := [(''channel'', Obj ''Channel'' ''10'' ''general''),
               (''author'', Obj ''Member'' ''42'' ''bob'')]\<rparr>"

definition owned_record :: url_data where
  "owned_record =
     \<lparr>d_version = Some 1, d_url = Some ''http://tube/watch?v=a'', d_title = Some ''song'',
      d_duration = Some 0, d_downloaded = Some True,
      d_expected_filename = Some (Some ''audio_cache/youtube-a-b.m4a''),
      d_filename = Some (Some ''audio_cache/youtube-a-b.m4a''),
      d_meta = Some [(''channel'', \<lparr>ref_type = Some ''Channel'', ref_id = Some ''10'',
                                    ref_name = Some ''general''\<rparr>),
                     (''author'', \<lparr>ref_type = Some ''Member'', ref_id = Some ''42'',
                                   ref_name = Some ''bob''\<rparr>)]\<rparr>"

definition orphan_stream_record :: stream_data where
  "orphan_stream_record =
     \<lparr>sd_version = Some 1, sd_url = Some ''http://radio/live'', sd_title = Some ''radio'',
      sd_direct = Some False,
      sd_meta = Some [(''channel'', \<lparr>ref_type = Some ''Channel'', ref_id = Some ''99'',
                                     ref_name = Some ''lost''\<rparr>)]\<rparr>"

definition orphan_author_record :: url_data where
  "orphan_author_record = owned_record
     \<lparr>d_meta := Some [(''channel'', \<lparr>ref_type = Some ''Channel'', ref_id = Some ''99'',
                                     ref_name = Some ''lost''\<rparr>),
                      (''author'', \<lparr>ref_type = Some ''Member'', ref_id = Some ''42'',
                                    ref_name = Some ''bob''\<rparr>)]\<rparr>"

text \<open>A ready entry whose channel is \<^verbatim>\<open>None\<close>, as the deserializer builds it for a
  channel that the resolver does not know.\<close>

definition ready_lost_channel :: url_entry where
  "ready_lost_channel = pending_youtube
     \<lparr>filename := Some ''audio_cache/youtube-a-b.m4a'', meta := [(''channel'', PyNone)]\<rparr>"

text \<open>A record whose channel the resolver knows and whose author it does not.\<close>

definition ghost_author_record :: url_data where
  "ghost_author_record = owned_record
     \<lparr>d_meta := Some [(''channel'', \<lparr>ref_type = Some ''Channel'', ref_id = Some ''10'',
                                     ref_name = Some ''general''\<rparr>),
                      (''author'', \<lparr>ref_type = Some ''Member'', ref_id = Some ''77'',
                                    ref_name = Some ''ghost''\<rparr>)]\<rparr>"


section \<open>Properties\<close>

subsection \<open>Auxiliary facts\<close>

lemma futs_emit [simp]: "futs (emit ev r) = futs r"
  by (simp add: emit_def)

lemma futs_ensure_folder [simp]: "futs (snd (ensure_folder env e r)) = futs r"
  by (simp add: ensure_folder_def)

lemma fetch_calls_emit [simp]:
  "fetch_calls (emit ev r) = (if is_fetch ev then Suc (fetch_calls r) else fetch_calls r)"
  by (simp add: fetch_calls_def emit_def)

lemma fetch_calls_ensure_folder [simp]: "fetch_calls (snd (ensure_folder env e r)) = fetch_calls r"
  by (simp add: ensure_folder_def)

lemma notify_set_result:
  "futs (notify (set_result v) fs r) g =
     (if g \<in> set fs \<and> futs r g = FutPending then FutResult v else futs r g)"
  by (induction fs arbitrary: r) (auto simp: set_result_def)

lemma notify_set_exception:
  "futs (notify (set_exception x) fs r) g =
     (if g \<in> set fs \<and> futs r g = FutPending then FutException x else futs r g)"
  by (induction fs arbitrary: r) (auto simp: set_exception_def)

lemma fetch_calls_notify_set_result [simp]:
  "fetch_calls (notify (set_result v) fs r) = fetch_calls r"
  by (induction fs arbitrary: r) (auto simp: set_result_def fetch_calls_def emit_def)

lemma fetch_calls_notify_set_exception [simp]:
  "fetch_calls (notify (set_exception x) fs r) = fetch_calls r"
  by (induction fs arbitrary: r) (auto simp: set_exception_def fetch_calls_def emit_def)

lemma rsplit1_last_sep:
  assumes "sep \<notin> set b"
  shows "rsplit1 sep (a @ sep # b) = [a, b]"
proof -
  have t: "takeWhile (\<lambda>c. c \<noteq> sep) (rev b @ sep # rev a) = rev b"
    using assms by (subst takeWhile_append2) auto
  have d: "dropWhile (\<lambda>c. c \<noteq> sep) (rev b @ sep # rev a) = sep # rev a"
    using assms by (subst dropWhile_append2) auto
  show ?thesis using t d by (simp add: rsplit1_def)
qed

lemma hashed_name_splice:
  assumes "CHR ''.'' \<notin> set ext"
  shows "hashed_name h (name @ ''.'' @ ext) = name @ ''-'' @ h @ ''.'' @ ext"
  using rsplit1_last_sep [OF assms, of name] by (simp add: hashed_name_def)

lemma really_download_frame:
  assumes "really_download env h e r = (res, e', r')"
  shows "waiting_futures e' = waiting_futures e \<and> eid e' = eid e \<and> futs r' = futs r"
  using assms
  by (auto simp: really_download_def Let_def split: sum.splits option.splits if_splits)

lemma really_download_full_fetch: "full_fetch env h e r (really_download env h e r)"
proof (cases "extract_info env (url e) True")
  case (Inl x)
  then show ?thesis by (simp add: full_fetch_def really_download_def emit_def fetch_calls_def)
next
  case (Inr result)
  show ?thesis
  proof (cases result)
    case None
    then show ?thesis using Inr
      by (simp add: full_fetch_def really_download_def emit_def fetch_calls_def)
  next
    case (Some res)
    show ?thesis
    proof (cases h)
      case False
      then show ?thesis using Inr Some
        by (simp add: full_fetch_def really_download_def emit_def fetch_calls_def)
    next
      case True
      show ?thesis
      proof (cases "md5sum env (prepare_filename env res) 8")
        case (Inl x)
        then show ?thesis using Inr Some True
          by (simp add: full_fetch_def really_download_def emit_def fetch_calls_def)
      next
        case (Inr hh)
        let ?P = "prepare_filename env res"
        let ?out = "really_download env True e r"
        have calls: "fetch_calls (snd (snd ?out)) = Suc (fetch_calls r)"
          "ExtractInfo (url e) True \<in> set (events (snd (snd ?out)))"
          using \<open>extract_info env (url e) True = Inr result\<close> Some True Inr
          by (simp_all add: really_download_def Let_def emit_def fetch_calls_def)
        have out: "filename (fst (snd ?out)) = Some (hashed_name hh ?P)
            \<and> (if isfile env (hashed_name hh ?P)
               then fst ?out = unlink env ?P \<and> last (events (snd (snd ?out))) = Unlink ?P
               else fst ?out = rename env ?P (hashed_name hh ?P)
                  \<and> last (events (snd (snd ?out))) = Rename ?P (hashed_name hh ?P))"
          using \<open>extract_info env (url e) True = Inr result\<close> Some True Inr
          by (simp add: really_download_def Let_def emit_def)
        have spliced: "\<forall>name ext. ?P = name @ ''.'' @ ext \<and> CHR ''.'' \<notin> set ext
            \<longrightarrow> filename (fst (snd ?out)) = Some (name @ ''-'' @ hh @ ''.'' @ ext)
              \<and> (if isfile env (name @ ''-'' @ hh @ ''.'' @ ext)
                 then fst ?out = unlink env ?P \<and> last (events (snd (snd ?out))) = Unlink ?P
                 else fst ?out = rename env ?P (name @ ''-'' @ hh @ ''.'' @ ext)
                    \<and> last (events (snd (snd ?out)))
                        = Rename ?P (name @ ''-'' @ hh @ ''.'' @ ext))"
        proof (intro allI impI)
          fix name ext
          assume a: "?P = name @ ''.'' @ ext \<and> CHR ''.'' \<notin> set ext"
          then have d: "CHR ''.'' \<notin> set ext" and p: "?P = name @ ''.'' @ ext" by simp_all
          have "hashed_name hh ?P = name @ ''-'' @ hh @ ''.'' @ ext"
            using hashed_name_splice [OF d, of hh name] p by simp
          then show "filename (fst (snd ?out)) = Some (name @ ''-'' @ hh @ ''.'' @ ext)
              \<and> (if isfile env (name @ ''-'' @ hh @ ''.'' @ ext)
                 then fst ?out = unlink env ?P \<and> last (events (snd (snd ?out))) = Unlink ?P
                 else fst ?out = rename env ?P (name @ ''-'' @ hh @ ''.'' @ ext)
                    \<and> last (events (snd (snd ?out)))
                        = Rename ?P (name @ ''-'' @ hh @ ''.'' @ ext))"
            using out by simp
        qed
        have x: "extract_info env (url e) True = Inr (Some res)"
          using \<open>extract_info env (url e) True = Inr result\<close> Some by simp
        have "full_fetch env True e r ?out"
          unfolding full_fetch_def
          by (simp only: calls x Inr sum.case option.case if_True simp_thms) (rule spliced)
        then show ?thesis using True by simp
      qed
    qed
  qed
qed

lemma really_download_failure:
  assumes "really_download env h e r = (Some x, e', r')"
  shows "fetch_calls r' = Suc (fetch_calls r)
       \<and> (case extract_info env (url e) True of
            Inr (Some info) \<Rightarrow>
              (case md5sum env (prepare_filename env info) 8 of
                 Inl y \<Rightarrow> filename e' = Some (prepare_filename env info)
               | Inr hh \<Rightarrow> filename e' = Some (hashed_name hh (prepare_filename env info)))
          | _ \<Rightarrow> filename e' = filename e)"
  using assms
  by (auto simp: really_download_def Let_def emit_def fetch_calls_def
           split: sum.splits option.splits if_splits)

lemma download_generic_frame:
  assumes "download_generic env b e r = (res, e', r')"
  shows "waiting_futures e' = waiting_futures e \<and> eid e' = eid e \<and> futs r' = futs r"
  using assms
  by (auto simp: download_generic_def Let_def split: sum.splits option.splits if_splits list.splits
           dest!: really_download_frame)

lemma download_cached_frame:
  assumes "download_cached env efn b e r = (res, e', r')"
  shows "waiting_futures e' = waiting_futures e \<and> eid e' = eid e \<and> futs r' = futs r"
  using assms
  by (auto simp: download_cached_def Let_def split: sum.splits option.splits if_splits list.splits
           dest!: really_download_frame)

lemma url_attempt_frame:
  assumes "url_attempt env e r = (res, e', r')"
  shows "waiting_futures e' = waiting_futures e \<and> eid e' = eid e \<and> futs r' = futs r"
proof (cases "ensure_folder env e r")
  case (Pair x r1)
  have f: "futs r1 = futs r" using futs_ensure_folder [of env e r] Pair by simp
  show ?thesis using assms Pair f
    by (auto simp: url_attempt_def Let_def split: option.splits if_splits
             dest!: download_generic_frame download_cached_frame)
qed

lemma download_generic_failure:
  assumes "download_generic env b e r = (Some x, e', r')"
  shows "(fetch_calls r' = fetch_calls r \<and> filename e' = filename e)
       \<or> (fetch_calls r' = Suc (fetch_calls r)
          \<and> (case extract_info env (url e) True of
               Inr (Some info) \<Rightarrow>
                 (case md5sum env (prepare_filename env info) 8 of
                    Inl y \<Rightarrow> filename e' = Some (prepare_filename env info)
                  | Inr hh \<Rightarrow> filename e' = Some (hashed_name hh (prepare_filename env info)))
             | _ \<Rightarrow> filename e' = filename e))"
  using assms
  by (auto simp: download_generic_def Let_def split: sum.splits option.splits if_splits list.splits
           dest!: really_download_failure)

lemma download_cached_failure:
  assumes "download_cached env efn b e r = (Some x, e', r')"
  shows "(fetch_calls r' = fetch_calls r \<and> filename e' = filename e)
       \<or> (fetch_calls r' = Suc (fetch_calls r)
          \<and> (case extract_info env (url e) True of
               Inr (Some info) \<Rightarrow>
                 (case md5sum env (prepare_filename env info) 8 of
                    Inl y \<Rightarrow> filename e' = Some (prepare_filename env info)
                  | Inr hh \<Rightarrow> filename e' = Some (hashed_name hh (prepare_filename env info)))
             | _ \<Rightarrow> filename e' = filename e))"
  using assms
  by (auto simp: download_cached_def Let_def split: sum.splits option.splits if_splits list.splits
           dest!: really_download_failure)

lemma url_attempt_failure:
  assumes "url_attempt env e r = (Some x, e', r')"
  shows "(fetch_calls r' = fetch_calls r \<and> filename e' = filename e)
       \<or> (fetch_calls r' = Suc (fetch_calls r)
          \<and> (case extract_info env (url e) True of
               Inr (Some info) \<Rightarrow>
                 (case md5sum env (prepare_filename env info) 8 of
                    Inl y \<Rightarrow> filename e' = Some (prepare_filename env info)
                  | Inr hh \<Rightarrow> filename e' = Some (hashed_name hh (prepare_filename env info)))
             | _ \<Rightarrow> filename e' = filename e))"
proof (cases "ensure_folder env e r")
  case (Pair y r1)
  have f: "fetch_calls r1 = fetch_calls r" using fetch_calls_ensure_folder [of env e r] Pair by simp
  show ?thesis
  proof (cases y)
    case (Some z)
    then show ?thesis using assms Pair f by (simp add: url_attempt_def)
  next
    case None
    show ?thesis
    proof (cases "expected_filename e")
      case None
      then show ?thesis using assms Pair f \<open>y = None\<close> by (simp add: url_attempt_def)
    next
      case (Some efn)
      show ?thesis
      proof (cases "split_first CHR ''-'' (basename efn) = ''generic''")
        case True
        then have "download_generic env (basename efn) e r1 = (Some x, e', r')"
          using assms Pair Some \<open>y = None\<close> by (simp add: url_attempt_def)
        from download_generic_failure [OF this] show ?thesis using f by simp
      next
        case False
        then have "download_cached env efn (basename efn) e r1 = (Some x, e', r')"
          using assms Pair Some \<open>y = None\<close> by (simp add: url_attempt_def)
        from download_cached_failure [OF this] show ?thesis using f by simp
      qed
    qed
  qed
qed

lemma notify_filter:
  assumes "\<And>f r g. (futs (snd (cb f r)) g = FutCancelled) = (futs r g = FutCancelled)"
  shows "notify cb fs r =
         foldl (\<lambda>r f. absorb (cb f r)) r (filter (\<lambda>f. futs r f \<noteq> FutCancelled) fs)"
proof (induction fs arbitrary: r)
  case Nil
  show ?case by simp
next
  case (Cons f fs)
  have keep: "(futs (absorb (cb f r)) g = FutCancelled) = (futs r g = FutCancelled)" for g
    using assms [of f r g] by (cases "cb f r" rule: absorb.cases) auto
  show ?case
  proof (cases "futs r f = FutCancelled")
    case True
    then show ?thesis using Cons.IH [of r] by simp
  next
    case False
    then show ?thesis using Cons.IH [of "absorb (cb f r)"] keep by simp
  qed
qed

lemma find_first_index:
  assumes "find (\<lambda>y. f y = v) xs = Some x"
  shows "v \<in> set (map f xs) \<and> length (takeWhile (\<lambda>z. z \<noteq> v) (map f xs)) < length xs
       \<and> xs ! length (takeWhile (\<lambda>z. z \<noteq> v) (map f xs)) = x"
  using assms by (induction xs) (auto split: if_splits)

lemma find_none_index:
  assumes "find (\<lambda>y. f y = v) xs = None"
  shows "v \<notin> set (map f xs)"
  using assms by (auto simp: find_None_iff)



lemma py_int_examples:
  "py_int (Some ''1_000'') = Inr 1000"
  "py_int (Some '' -12 '') = Inr (- 12)"
  "py_int (Some ''1__0'') = Inl (ValueError ''invalid literal for int()'')"
  "py_int (Some ''12_'') = Inl (ValueError ''invalid literal for int()'')"
  "py_int (Some []) = Inl (ValueError ''invalid literal for int()'')"
  "py_int None = Inl (TypeError ''int() argument must be a string or a number'')"
  by (simp_all add: py_int_def strip_def is_space_def is_digit_def digits_value_def
      int_literal_def)

lemma meta_json_lookup:
  assumes "meta_json m = Inr refs"
  shows "map_of refs k =
           (case map_of m k of
              None \<Rightarrow> None
            | Some ob \<Rightarrow> (case owner_ref ob of Inl x \<Rightarrow> None | Inr ref \<Rightarrow> Some ref))
         \<and> (\<forall>ob. map_of m k = Some ob \<longrightarrow> is_obj ob)"
  using assms
proof (induction m arbitrary: refs)
  case Nil
  then show ?case by simp
next
  case (Cons p m)
  obtain name ob where p: "p = (name, ob)" by (cases p)
  from Cons.prems p obtain ref rest where
    r: "owner_ref ob = Inr ref" "meta_json m = Inr rest" "refs = (name, ref) # rest"
    by (auto split: sum.splits)
  have o: "is_obj ob" using r(1) by (cases ob) auto
  show ?case using Cons.IH [OF r(2)] r p o by auto
qed

lemma meta_json_live:
  assumes "\<forall>p \<in> set m. is_obj (snd p)"
  shows "\<exists>refs. meta_json m = Inr refs"
  using assms
proof (induction m)
  case Nil
  show ?case by simp
next
  case (Cons p m)
  obtain name ob where p: "p = (name, ob)" by (cases p)
  then have "is_obj ob" using Cons.prems by simp
  then obtain c i n where ob: "ob = Obj c i n" by (cases ob) auto
  obtain rest where "meta_json m = Inr rest" using Cons by auto
  then show ?case using p ob by simp
qed

lemma url_meta_ok:
  assumes "meta_json m = Inr refs"
    and "\<forall>c i n. map_of m ''channel'' = Some (Obj c i n) \<longrightarrow> is_obj (get_channel pl i)"
    and "map_of m ''author'' \<noteq> None \<longrightarrow> map_of m ''channel'' \<noteq> None"
  shows "\<exists>mt. url_meta pl refs = Inr mt"
proof -
  note L = meta_json_lookup [OF assms(1)]
  show ?thesis
  proof (cases "map_of m ''channel''")
    case None
    then have "map_of m ''author'' = None" using assms(3) by (cases "map_of m ''author''") auto
    then show ?thesis using None L [of "''channel''"] L [of "''author''"]
      by (simp add: url_meta_def)
  next
    case (Some ch)
    then obtain c i n where ch: "ch = Obj c i n" using L [of "''channel''"] by (cases ch) auto
    then obtain c' i' n' where g: "get_channel pl i = Obj c' i' n'"
      using assms(2) Some by (cases "get_channel pl i") auto
    show ?thesis
    proof (cases "map_of m ''author''")
      case None
      then show ?thesis using Some ch L [of "''channel''"] L [of "''author''"]
        by (simp add: url_meta_def ref_id_of_def)
    next
      case (Some a)
      then obtain ca ia na where a: "a = Obj ca ia na" using L [of "''author''"] by (cases a) auto
      show ?thesis using Some a \<open>map_of m ''channel'' = Some ch\<close> ch g L [of "''channel''"] L [of "''author''"]
        by (simp add: url_meta_def ref_id_of_def server_get_member_def)
    qed
  qed
qed

lemma url_meta_unloadable_Inl:
  assumes "url_meta_unloadable pl m"
  shows "\<exists>x. url_meta pl m = Inl x"
  using assms
  by (auto simp: url_meta_unloadable_def url_meta_def ref_id_of_def server_get_member_def
           split: option.splits owner.splits)

lemma url_meta_channel_only:
  assumes "map_of m ''channel'' = Some cref" "ref_id cref = Some i" "map_of m ''author'' = None"
  shows "url_meta pl m = Inr [(''channel'', get_channel pl i)]"
  using assms by (simp add: url_meta_def ref_id_of_def)

lemma url_meta_channel_author:
  assumes "map_of m ''channel'' = Some cref" "ref_id cref = Some i"
    and "get_channel pl i = Obj c j n"
    and "map_of m ''author'' = Some aref" "ref_id aref = Some a"
  shows "url_meta pl m = Inr [(''channel'', Obj c j n), (''author'', get_member pl (Obj c j n) a)]"
  using assms by (simp add: url_meta_def ref_id_of_def server_get_member_def)

lemma url_meta_loadable_Inr:
  assumes "\<not> url_meta_unloadable pl m"
  shows "\<exists>mt. url_meta pl m = Inr mt"
proof (cases "map_of m ''channel''")
  case None
  then show ?thesis using assms by (simp add: url_meta_unloadable_def url_meta_def)
next
  case (Some cref)
  then obtain i where i: "ref_id cref = Some i"
    using assms by (cases "ref_id cref") (auto simp: url_meta_unloadable_def)
  show ?thesis
  proof (cases "map_of m ''author''")
    case None
    then show ?thesis using url_meta_channel_only [OF Some i, of pl] by simp
  next
    case (Some aref)
    then have o: "is_obj (get_channel pl i)" and "ref_id aref \<noteq> None"
      using assms \<open>map_of m ''channel'' = Some cref\<close> i by (auto simp: url_meta_unloadable_def)
    then obtain a c j n where "ref_id aref = Some a" "get_channel pl i = Obj c j n"
      by (cases "get_channel pl i") auto
    then show ?thesis
      using url_meta_channel_author [OF \<open>map_of m ''channel'' = Some cref\<close> i _ Some, of pl c j n a]
      by simp
  qed
qed

lemma stream_meta_unloadable_Inl:
  assumes "stream_meta_unloadable pl m"
  shows "\<exists>x. stream_meta_of pl m = Inl x"
  using assms
  by (auto simp: stream_meta_unloadable_def stream_meta_of_def ref_id_of_def
        server_get_member_def Let_def
           split: option.splits owner.splits if_splits)

lemma stream_meta_channel_only:
  assumes "map_of m ''channel'' = Some cref" "ref_id cref = Some i" "map_of m ''author'' = None"
  shows "truthy (get_channel pl i) \<longrightarrow> stream_meta_of pl m = Inr [(''channel'', get_channel pl i)]"
    and "\<not> truthy (get_channel pl i) \<and> ref_name cref = Some n
           \<longrightarrow> stream_meta_of pl m = Inr [(''channel'', PyStr n)]"
  using assms by (simp_all add: stream_meta_of_def ref_id_of_def Let_def)

lemma stream_meta_channel_author:
  assumes "map_of m ''channel'' = Some cref" "ref_id cref = Some i"
    and "get_channel pl i = Obj c j n"
    and "map_of m ''author'' = Some aref" "ref_id aref = Some a"
  shows "stream_meta_of pl m
           = Inr [(''channel'', Obj c j n), (''author'', get_member pl (Obj c j n) a)]"
  using assms by (simp add: stream_meta_of_def ref_id_of_def server_get_member_def Let_def)

lemma stream_meta_loadable_Inr:
  assumes "\<not> stream_meta_unloadable pl m"
  shows "\<exists>mt. stream_meta_of pl m = Inr mt"
proof (cases "map_of m ''channel''")
  case None
  then show ?thesis using assms by (simp add: stream_meta_unloadable_def stream_meta_of_def)
next
  case (Some cref)
  then obtain i where i: "ref_id cref = Some i"
    using assms by (cases "ref_id cref") (auto simp: stream_meta_unloadable_def)
  show ?thesis
  proof (cases "map_of m ''author''")
    case None
    have "truthy (get_channel pl i) \<or> (\<exists>n. ref_name cref = Some n)"
      using assms Some i None by (cases "ref_name cref") (auto simp: stream_meta_unloadable_def)
    then show ?thesis
      using stream_meta_channel_only [OF Some i None, of pl] by auto
  next
    case (Some aref)
    then have o: "is_obj (get_channel pl i)" and "ref_id aref \<noteq> None"
      using assms \<open>map_of m ''channel'' = Some cref\<close> i by (auto simp: stream_meta_unloadable_def)
    then obtain a c j n where "ref_id aref = Some a" "get_channel pl i = Obj c j n"
      by (cases "get_channel pl i") auto
    then show ?thesis
      using stream_meta_channel_author [OF \<open>map_of m ''channel'' = Some cref\<close> i _ Some, of pl c j n a]
      by simp
  qed
qed

lemma url_fields_absent_Inl:
  assumes "url_fields_absent d"
  shows "\<exists>x. url_fields oid pl d = Inl x"
  using assms
  by (auto simp: url_fields_absent_def url_fields_def split: option.splits sum.splits)

lemma url_fields_present:
  assumes "\<not> url_fields_absent d" "d_meta d = Some m"
  shows "\<exists>u t dur efn fn.
           url_fields oid pl d =
             (case url_meta pl m of
                Inl x \<Rightarrow> Inl x
              | Inr mt \<Rightarrow> Inr ((url_init oid pl u t dur efn mt)
                                \<lparr>filename := fn, is_downloading := False\<rparr>))"
proof -
  from assms(1) obtain u t dur dl efn where
    fields: "d_url d = Some u" "d_title d = Some t" "d_duration d = Some dur"
      "d_downloaded d = Some dl" "d_expected_filename d = Some efn"
    by (auto simp: url_fields_absent_def)
  show ?thesis
  proof (cases dl)
    case True
    then obtain f where f: "d_filename d = Some f"
      using assms(1) fields by (auto simp: url_fields_absent_def)
    show ?thesis
      by (intro exI [of _ u] exI [of _ t] exI [of _ dur] exI [of _ efn] exI [of _ f])
         (simp add: url_fields_def fields f True assms(2) split: sum.splits)
  next
    case False
    show ?thesis
      by (intro exI [of _ u] exI [of _ t] exI [of _ dur] exI [of _ efn] exI [of _ None])
         (simp add: url_fields_def fields False assms(2) split: sum.splits)
  qed
qed

lemma stream_fields_absent_Inl:
  assumes "stream_fields_absent d"
  shows "\<exists>x. stream_fields oid pl d = Inl x"
  using assms
  by (auto simp: stream_fields_absent_def stream_fields_def split: option.splits sum.splits)

lemma stream_fields_present:
  assumes "\<not> stream_fields_absent d" "sd_meta d = Some m"
  shows "\<exists>u t dr.
           stream_fields oid pl d =
             (case stream_meta_of pl m of
                Inl x \<Rightarrow> Inl x
              | Inr mt \<Rightarrow> Inr (stream_init oid u t dr None mt))"
proof -
  from assms(1) obtain u t dr where
    fields: "sd_url d = Some u" "sd_title d = Some t" "sd_direct d = Some dr"
    by (auto simp: stream_fields_absent_def)
  show ?thesis
    by (intro exI [of _ u] exI [of _ t] exI [of _ dr])
       (simp add: stream_fields_def fields assms(2) split: sum.splits)
qed

lemma url_deserialize_cases:
  "url_deserialize oid d (Some pl) =
     (case url_fields oid pl d of
        Inl x \<Rightarrow> Inr (None, [LogError ''Could not load URLPlaylistEntry'' x])
      | Inr e \<Rightarrow> Inr (Some e, []))"
  by (simp add: url_deserialize_def)

lemma stream_deserialize_cases:
  "stream_deserialize oid d (Some pl) =
     (case stream_fields oid pl d of
        Inl x \<Rightarrow> Inr (None, [LogError ''Could not load StreamPlaylistEntry'' x])
      | Inr e \<Rightarrow> Inr (Some e, []))"
  by (simp add: stream_deserialize_def)

lemma url_unloadable_dropped:
  assumes "url_unloadable pl d"
  shows "\<exists>x. url_deserialize oid d (Some pl)
               = Inr (None, [LogError ''Could not load URLPlaylistEntry'' x])"
proof (cases "url_fields_absent d")
  case True
  then show ?thesis using url_fields_absent_Inl [of d oid pl] by (auto simp: url_deserialize_cases)
next
  case False
  then obtain m where m: "d_meta d = Some m" by (auto simp: url_fields_absent_def)
  then have "url_meta_unloadable pl m" using assms False by (simp add: url_unloadable_def)
  then obtain x where "url_meta pl m = Inl x" using url_meta_unloadable_Inl by blast
  then show ?thesis using url_fields_present [OF False m, of oid pl]
    by (auto simp: url_deserialize_cases)
qed

lemma url_loadable_loaded:
  assumes "\<not> url_unloadable pl d"
  shows "\<exists>e'. url_deserialize oid d (Some pl) = Inr (Some e', [])"
proof -
  have p: "\<not> url_fields_absent d" using assms by (simp add: url_unloadable_def)
  then obtain m where m: "d_meta d = Some m" by (auto simp: url_fields_absent_def)
  then have "\<not> url_meta_unloadable pl m" using assms by (simp add: url_unloadable_def)
  then obtain mt where "url_meta pl m = Inr mt" using url_meta_loadable_Inr by blast
  then show ?thesis using url_fields_present [OF p m, of oid pl]
    by (auto simp: url_deserialize_cases)
qed

lemma stream_unloadable_dropped:
  assumes "stream_unloadable pl d"
  shows "\<exists>x. stream_deserialize oid d (Some pl)
               = Inr (None, [LogError ''Could not load StreamPlaylistEntry'' x])"
proof (cases "stream_fields_absent d")
  case True
  then show ?thesis using stream_fields_absent_Inl [of d oid pl]
    by (auto simp: stream_deserialize_cases)
next
  case False
  then obtain m where m: "sd_meta d = Some m" by (auto simp: stream_fields_absent_def)
  then have "stream_meta_unloadable pl m" using assms False by (simp add: stream_unloadable_def)
  then obtain x where "stream_meta_of pl m = Inl x" using stream_meta_unloadable_Inl by blast
  then show ?thesis using stream_fields_present [OF False m, of oid pl]
    by (auto simp: stream_deserialize_cases)
qed

lemma stream_loadable_loaded:
  assumes "\<not> stream_unloadable pl d"
  shows "\<exists>e'. stream_deserialize oid d (Some pl) = Inr (Some e', [])"
proof -
  have p: "\<not> stream_fields_absent d" using assms by (simp add: stream_unloadable_def)
  then obtain m where m: "sd_meta d = Some m" by (auto simp: stream_fields_absent_def)
  then have "\<not> stream_meta_unloadable pl m" using assms by (simp add: stream_unloadable_def)
  then obtain mt where "stream_meta_of pl m = Inr mt" using stream_meta_loadable_Inr by blast
  then show ?thesis using stream_fields_present [OF p m, of oid pl]
    by (auto simp: stream_deserialize_cases)
qed

lemma url_loaded_meta:
  assumes "\<not> url_fields_absent d" "d_meta d = Some m" "url_meta pl m = Inr mt"
  shows "\<exists>e'. url_deserialize oid d (Some pl) = Inr (Some e', []) \<and> meta e' = mt"
  using url_fields_present [OF assms(1,2), of oid pl] assms(3)
  by (auto simp: url_deserialize_cases url_init_def)

lemma stream_loaded_meta:
  assumes "\<not> stream_fields_absent d" "sd_meta d = Some m" "stream_meta_of pl m = Inr mt"
  shows "\<exists>e'. stream_deserialize oid d (Some pl) = Inr (Some e', []) \<and> stream_meta e' = mt"
  using stream_fields_present [OF assms(1,2), of oid pl] assms(3)
  by (auto simp: stream_deserialize_cases stream_init_def)

lemma load_url_batch_length:
  "length (load_batch (\<lambda>i d. url_deserialize i d (Some pl)) oid ds)
     + length (filter (url_unloadable pl) ds) = length ds"
proof (induction ds arbitrary: oid)
  case Nil
  show ?case by simp
next
  case (Cons d ds)
  show ?case
  proof (cases "url_unloadable pl d")
    case True
    then show ?thesis using Cons.IH [of "Suc oid"] url_unloadable_dropped [OF True, of oid]
      by auto
  next
    case False
    then show ?thesis using Cons.IH [of "Suc oid"] url_loadable_loaded [OF False, of oid]
      by auto
  qed
qed

lemma load_stream_batch_length:
  "length (load_batch (\<lambda>i d. stream_deserialize i d (Some pl)) oid ds)
     + length (filter (stream_unloadable pl) ds) = length ds"
proof (induction ds arbitrary: oid)
  case Nil
  show ?case by simp
next
  case (Cons d ds)
  show ?case
  proof (cases "stream_unloadable pl d")
    case True
    then show ?thesis using Cons.IH [of "Suc oid"] stream_unloadable_dropped [OF True, of oid]
      by auto
  next
    case False
    then show ?thesis using Cons.IH [of "Suc oid"] stream_loadable_loaded [OF False, of oid]
      by auto
  qed
qed

subsection \<open>The download routine and its handles\<close>

text \<open>C1, as the claim states it, fails. A handle that its holder has cancelled is
  skipped, so it is never resolved. And when the extractor has delivered a result and
  hashing the file it names raises, the live handle is resolved with the error and the
  entry, which was pending, is left with a file name, so it counts as downloaded.\<close>

theorem download_failure_keeps_filename_counterexample:
  "is_downloaded pending_generic_pair = False
   \<and> waiting_futures pending_generic_pair = [0, 1]
   \<and> futs (snd (url_download cache_env pending_generic_pair cancelled_waiter)) 0
       = FutException (OSError ''No such file or directory'')
   \<and> futs (snd (url_download cache_env pending_generic_pair cancelled_waiter)) 1 = FutCancelled
   \<and> filename (fst (url_download cache_env pending_generic_pair cancelled_waiter))
       = Some ''audio_cache/generic-x-song.mp3''
   \<and> is_downloaded (fst (url_download cache_env pending_generic_pair cancelled_waiter))"
  by (simp add: url_download_def url_attempt_def cache_env_def pending_generic_pair_def
      pending_generic_def cancelled_waiter_def ensure_folder_def basename_def split_first_def
      download_generic_def rsplit1_def really_download_def emit_def for_each_future_def
      set_exception_def is_downloaded_def)

text \<open>C1, amended. When the download routine of a URL entry runs on an entry that is
  not downloading, then at its end the registry is empty, the entry is not downloading,
  and every registered handle that was pending is resolved: with the entry when the
  attempt ended normally, with the raised error when it raised. Every other future,
  cancelled or resolved before, is as it was. After an attempt that raised, the file
  name is what it was before if the extractor's fetch was not called or delivered no
  result; if the fetch was called and delivered a result, the file name is the
  prepared one when hashing raised, and the one with the hash spliced in when the
  unlink or the rename raised. The routine of a stream entry always leaves the entry
  not downloading, and leaves the file name as it was when it raises.\<close>

theorem url_download_resolves_handles:
  assumes "\<not> is_downloading e"
  shows "waiting_futures (fst (url_download env e r)) = []
       \<and> \<not> is_downloading (fst (url_download env e r))
       \<and> (\<forall>g. futs (snd (url_download env e r)) g =
            (if g \<in> set (waiting_futures e) \<and> futs r g = FutPending
             then (case fst (url_attempt env (e\<lparr>is_downloading := True\<rparr>) r) of
                     None \<Rightarrow> FutResult (eid e) | Some x \<Rightarrow> FutException x)
             else futs r g))
       \<and> (fst (url_attempt env (e\<lparr>is_downloading := True\<rparr>) r) \<noteq> None
            \<and> (fetch_calls (snd (url_download env e r)) = fetch_calls r
               \<or> (\<forall>info. extract_info env (url e) True \<noteq> Inr (Some info)))
          \<longrightarrow> filename (fst (url_download env e r)) = filename e)
       \<and> (\<forall>info. fst (url_attempt env (e\<lparr>is_downloading := True\<rparr>) r) \<noteq> None
            \<and> fetch_calls (snd (url_download env e r)) \<noteq> fetch_calls r
            \<and> extract_info env (url e) True = Inr (Some info)
          \<longrightarrow> (case md5sum env (prepare_filename env info) 8 of
                 Inl y \<Rightarrow> filename (fst (url_download env e r)) = Some (prepare_filename env info)
               | Inr h \<Rightarrow> filename (fst (url_download env e r))
                           = Some (hashed_name h (prepare_filename env info))))
       \<and> \<not> is_downloading (fst (snd (stream_download env s sr)))
       \<and> (fst (stream_download env s sr) \<noteq> None
          \<longrightarrow> filename (fst (snd (stream_download env s sr))) = filename s)"
proof -
  obtain res e1 r1 where att: "url_attempt env (e\<lparr>is_downloading := True\<rparr>) r = (res, e1, r1)"
    by (cases "url_attempt env (e\<lparr>is_downloading := True\<rparr>) r") auto
  from url_attempt_frame [OF att]
  have fr: "waiting_futures e1 = waiting_futures e" "eid e1 = eid e" "futs r1 = futs r"
    by auto
  have handles: "waiting_futures (fst (url_download env e r)) = []
       \<and> \<not> is_downloading (fst (url_download env e r))
       \<and> (\<forall>g. futs (snd (url_download env e r)) g =
            (if g \<in> set (waiting_futures e) \<and> futs r g = FutPending
             then (case res of None \<Rightarrow> FutResult (eid e) | Some x \<Rightarrow> FutException x)
             else futs r g))"
  proof (cases res)
    case None
    then show ?thesis using assms att fr
      by (simp add: url_download_def for_each_future_def notify_set_result)
  next
    case (Some x)
    then show ?thesis using assms att fr
      by (simp add: url_download_def for_each_future_def notify_set_exception)
  qed
  have after: "filename (fst (url_download env e r)) = filename e1
             \<and> fetch_calls (snd (url_download env e r)) = fetch_calls r1"
    using assms att by (cases res) (simp_all add: url_download_def for_each_future_def)
  have early: "res \<noteq> None
            \<and> (fetch_calls (snd (url_download env e r)) = fetch_calls r
               \<or> (\<forall>info. extract_info env (url e) True \<noteq> Inr (Some info)))
          \<longrightarrow> filename (fst (url_download env e r)) = filename e"
  proof (cases res)
    case None
    then show ?thesis by simp
  next
    case (Some x)
    from url_attempt_failure [OF att [unfolded Some]] show ?thesis
      using after by (auto split: sum.splits option.splits)
  qed
  have late: "\<forall>info. res \<noteq> None
            \<and> fetch_calls (snd (url_download env e r)) \<noteq> fetch_calls r
            \<and> extract_info env (url e) True = Inr (Some info)
          \<longrightarrow> (case md5sum env (prepare_filename env info) 8 of
                 Inl y \<Rightarrow> filename (fst (url_download env e r)) = Some (prepare_filename env info)
               | Inr h \<Rightarrow> filename (fst (url_download env e r))
                           = Some (hashed_name h (prepare_filename env info)))"
  proof (cases res)
    case None
    then show ?thesis by simp
  next
    case (Some x)
    from url_attempt_failure [OF att [unfolded Some]] show ?thesis
      using after by (auto split: sum.splits option.splits)
  qed
  have stream_part: "\<not> is_downloading (fst (snd (stream_download env s sr)))
       \<and> (fst (stream_download env s sr) \<noteq> None
          \<longrightarrow> filename (fst (snd (stream_download env s sr))) = filename s)"
    by (simp add: stream_download_def Let_def split: sum.splits option.splits)
  show ?thesis using handles early late stream_part att by simp
qed

theorem url_download_resolves_handles_witness:
  "\<not> is_downloading pending_generic
   \<and> waiting_futures (fst (url_download offline_env pending_generic one_waiter)) = []
   \<and> \<not> is_downloading (fst (url_download offline_env pending_generic one_waiter))
   \<and> futs (snd (url_download offline_env pending_generic one_waiter)) 0
       = FutException (ExtractionError (OSError ''unreachable''))
   \<and> filename (fst (url_download offline_env pending_generic one_waiter)) = None
   \<and> futs (snd (url_download locked_env pending_generic one_waiter)) 0
       = FutException (OSError ''Permission denied'')
   \<and> filename (fst (url_download locked_env pending_generic one_waiter))
       = Some ''audio_cache/generic-x-song-1a2b3c4d.mp3''
   \<and> \<not> is_downloading (fst (snd (stream_download offline_env pending_stream one_waiter)))
   \<and> filename (fst (snd (stream_download offline_env pending_stream one_waiter))) = None"
proof -
  have h: "\<not> is_downloading pending_generic" by (simp add: pending_generic_def)
  have w: "0 \<in> set (waiting_futures pending_generic) \<and> futs one_waiter 0 = FutPending"
    by (simp add: pending_generic_def one_waiter_def)
  \<comment> \<open>the extractor fails\<close>
  have a: "fst (url_attempt offline_env (pending_generic\<lparr>is_downloading := True\<rparr>) one_waiter)
             = Some (ExtractionError (OSError ''unreachable''))"
    by (simp add: url_attempt_def offline_env_def cache_env_def pending_generic_def one_waiter_def
      ensure_folder_def basename_def split_first_def download_generic_def rsplit1_def
      really_download_def emit_def)
  have s: "fst (stream_download offline_env pending_stream one_waiter) \<noteq> None"
    by (simp add: stream_download_def offline_env_def cache_env_def pending_stream_def)
  have x: "\<forall>info. extract_info offline_env (url pending_generic) True \<noteq> Inr (Some info)"
    by (simp add: offline_env_def cache_env_def)
  have early: "waiting_futures (fst (url_download offline_env pending_generic one_waiter)) = []
   \<and> \<not> is_downloading (fst (url_download offline_env pending_generic one_waiter))
   \<and> futs (snd (url_download offline_env pending_generic one_waiter)) 0
       = FutException (ExtractionError (OSError ''unreachable''))
   \<and> filename (fst (url_download offline_env pending_generic one_waiter)) = None
   \<and> \<not> is_downloading (fst (snd (stream_download offline_env pending_stream one_waiter)))
   \<and> filename (fst (snd (stream_download offline_env pending_stream one_waiter))) = None"
    using url_download_resolves_handles [OF h, of offline_env one_waiter pending_stream one_waiter]
      a s x w
    by (simp add: pending_stream_def pending_generic_def)
  \<comment> \<open>the rename fails\<close>
  have b: "url_attempt locked_env (pending_generic\<lparr>is_downloading := True\<rparr>) one_waiter
             = (Some (OSError ''Permission denied''),
                pending_generic\<lparr>is_downloading := True,
                                filename := Some ''audio_cache/generic-x-song-1a2b3c4d.mp3''\<rparr>,
                one_waiter\<lparr>events :=
                  [LogInfo ''Download started: http://host/song.mp3'',
                   ExtractInfo ''http://host/song.mp3'' True,
                   LogInfo ''Download complete: http://host/song.mp3'',
                   Rename ''audio_cache/generic-x-song.mp3''
                     ''audio_cache/generic-x-song-1a2b3c4d.mp3'']\<rparr>)"
    by (simp add: url_attempt_def locked_env_def hit_env_def cache_env_def pending_generic_def
      one_waiter_def ensure_folder_def basename_def split_first_def download_generic_def
      rsplit1_def really_download_def emit_def hashed_name_def Let_def)
  have c: "fetch_calls (snd (url_download locked_env pending_generic one_waiter))
            \<noteq> fetch_calls one_waiter"
    using h b
    by (simp add: url_download_def for_each_future_def one_waiter_def)
       (simp add: fetch_calls_def)
  have y: "extract_info locked_env (url pending_generic) True
            = Inr (Some [(''url'', ''http://cdn/live'')])"
    by (simp add: locked_env_def hit_env_def cache_env_def)
  have m: "md5sum locked_env (prepare_filename locked_env [(''url'', ''http://cdn/live'')]) 8
            = Inr ''1a2b3c4d''"
    by (simp add: locked_env_def hit_env_def cache_env_def)
  have hn: "hashed_name ''1a2b3c4d'' (prepare_filename locked_env [(''url'', ''http://cdn/live'')])
            = ''audio_cache/generic-x-song-1a2b3c4d.mp3''"
    by (simp add: locked_env_def hit_env_def cache_env_def hashed_name_def rsplit1_def)
  have late: "futs (snd (url_download locked_env pending_generic one_waiter)) 0
       = FutException (OSError ''Permission denied'')
   \<and> filename (fst (url_download locked_env pending_generic one_waiter))
       = Some ''audio_cache/generic-x-song-1a2b3c4d.mp3''"
    using url_download_resolves_handles [OF h, of locked_env one_waiter pending_stream one_waiter]
      b c y m hn w
    by simp
  show ?thesis using h early late by simp
qed

text \<open>C2. The routine of a stream entry has no guard: run on an entry that is already
  downloading it calls the extractor again, sets the file name and clears the
  downloading flag. The routine of a URL entry returns at once in that state.\<close>

theorem stream_download_while_downloading:
  "is_downloading busy_stream
   \<and> stream_download cache_env busy_stream one_waiter
       = (None, busy_stream\<lparr>filename := Some ''http://cdn/live'', is_downloading := False\<rparr>,
          one_waiter\<lparr>events := [ExtractInfo ''http://radio/live'' False]\<rparr>)"
  by (simp add: stream_download_def busy_stream_def pending_stream_def cache_env_def
      one_waiter_def emit_def)

lemma url_download_while_downloading:
  "is_downloading e \<Longrightarrow> url_download env e r = (e, r)"
  by (simp add: url_download_def)

subsection \<open>The readiness broker\<close>

text \<open>C3. On an entry that is ready (a file name set, not downloading),
  \<open>get_ready_future\<close> returns a fresh future that is already resolved with the entry
  itself; the entry, and with it the registry of waiting futures, is unchanged, no run
  of the download routine is handed to the event loop, and no call to the outside is
  made.\<close>

theorem get_ready_future_when_ready:
  assumes "is_downloaded e"
  shows "fst (get_ready_future e r) = nfut r
       \<and> futs (snd (snd (get_ready_future e r))) (nfut r) = FutResult (eid e)
       \<and> fst (snd (get_ready_future e r)) = e
       \<and> tasks (snd (snd (get_ready_future e r))) = tasks r
       \<and> events (snd (snd (get_ready_future e r))) = events r"
  using assms by (simp add: get_ready_future_def new_future_def set_result_def)

theorem get_ready_future_when_ready_witness:
  "is_downloaded ready_entry
   \<and> futs (snd (snd (get_ready_future ready_entry idle_runtime))) 0 = FutResult 7
   \<and> waiting_futures (fst (snd (get_ready_future ready_entry idle_runtime))) = []
   \<and> tasks (snd (snd (get_ready_future ready_entry idle_runtime))) = 0
   \<and> events (snd (snd (get_ready_future ready_entry idle_runtime))) = []"
proof -
  have h: "is_downloaded ready_entry"
    by (simp add: is_downloaded_def ready_entry_def)
  show ?thesis
    using h get_ready_future_when_ready [OF h, of idle_runtime]
    by (simp add: ready_entry_def idle_runtime_def)
qed

text \<open>C9. The notification loop takes the registry and clears it, then calls the
  callback on exactly the handles that are not cancelled, in order; an exception of
  a callback is printed and the loop goes on with the next handle. The callback may
  do anything to the runtime except change which handles are cancelled.\<close>

theorem for_each_future_notifies_live_handles:
  assumes "\<And>f r g. (futs (snd (cb f r)) g = FutCancelled) = (futs r g = FutCancelled)"
  shows "for_each_future cb e r =
           (e\<lparr>waiting_futures := []\<rparr>,
            foldl (\<lambda>r f. absorb (cb f r)) r
              (filter (\<lambda>f. futs r f \<noteq> FutCancelled) (waiting_futures e)))"
  using notify_filter [of cb, OF assms] by (simp add: for_each_future_def)

theorem for_each_future_notifies_live_handles_witness:
  "for_each_future (set_result 7) fanout_entry fanout_runtime =
     (fanout_entry\<lparr>waiting_futures := []\<rparr>,
      fanout_runtime\<lparr>futs := (futs fanout_runtime)(0 := FutResult 7),
                     events := [PrintExc InvalidStateError]\<rparr>)"
proof -
  have frame: "(futs (snd (set_result 7 f r)) g = FutCancelled) = (futs r g = FutCancelled)"
    for f r g
    by (simp add: set_result_def)
  show ?thesis
    using for_each_future_notifies_live_handles
            [of "set_result 7" fanout_entry fanout_runtime, OF frame]
    by (simp add: fanout_entry_def fanout_runtime_def set_result_def emit_def)
qed

subsection \<open>The cache probe of the URL entry\<close>



text \<open>C5. Let the prefix of the expected file name be another one than \<open>generic\<close>,
  and let the download folder exist (or be created) and be listed. If the expected
  base name is in the listing, its path becomes the file name, and a run of the
  routine calls the extractor's fetch zero times. Otherwise, if an entry of the
  listing has the expected name up to its extension, the first such entry is
  reused: the attempt ends normally and logs the two extensions. Otherwise the attempt
  is a full fetch without hash-disambiguation.\<close>

theorem cached_download_reuses_file:
  assumes folder: "path_exists env (download_folder e) \<or> makedirs env (download_folder e) = None"
    and efn: "expected_filename e = Some efn"
    and other: "split_first CHR ''-'' (basename efn) \<noteq> ''generic''"
    and ldir: "listdir env (download_folder e) = Inr ldir"
  shows "(basename efn \<in> set ldir \<longrightarrow>
            url_attempt env e r =
              (None, e\<lparr>filename := Some (path_join (download_folder e) (basename efn))\<rparr>,
               emit (LogInfo (''Download cached: '' @ url e)) (snd (ensure_folder env e r)))
            \<and> (\<not> is_downloading e \<longrightarrow>
                 fetch_calls (snd (url_download env e r)) = fetch_calls r
                 \<and> filename (fst (url_download env e r))
                     = Some (path_join (download_folder e) (basename efn))))
       \<and> (\<forall>name. basename efn \<notin> set ldir
             \<and> find (\<lambda>f. hd (rsplit1 CHR ''.'' f) = hd (rsplit1 CHR ''.'' (basename efn))) ldir
                 = Some name
            \<longrightarrow> fst (url_attempt env e r) = None
              \<and> filename (fst (snd (url_attempt env e r))) = Some (path_join (download_folder e) name)
              \<and> events (snd (snd (url_attempt env e r))) =
                  events (snd (ensure_folder env e r))
                  @ [LogInfo (''Download cached (different extension): '' @ url e),
                     LogDebug (''Expected '' @ last (rsplit1 CHR ''.'' efn) @ '', got ''
                               @ last (rsplit1 CHR ''.'' (path_join (download_folder e) name)))])
       \<and> (basename efn \<notin> set ldir
            \<and> find (\<lambda>f. hd (rsplit1 CHR ''.'' f) = hd (rsplit1 CHR ''.'' (basename efn))) ldir = None
            \<longrightarrow> full_fetch env False e (snd (ensure_folder env e r)) (url_attempt env e r))"
proof -
  have att: "url_attempt env e' r = download_cached env efn (basename efn) e' (snd (ensure_folder env e' r))"
    if "expected_filename e' = Some efn" "download_folder e' = download_folder e" for e'
    using folder that other by (auto simp: url_attempt_def ensure_folder_def)
  have exact: "url_attempt env e' r =
              (None, e'\<lparr>filename := Some (path_join (download_folder e) (basename efn))\<rparr>,
               emit (LogInfo (''Download cached: '' @ url e')) (snd (ensure_folder env e' r)))"
    if "basename efn \<in> set ldir" "expected_filename e' = Some efn" "download_folder e' = download_folder e" for e'
    using att [of e'] ldir that by (simp add: download_cached_def)
  have run: "fetch_calls (snd (url_download env e r)) = fetch_calls r
                 \<and> filename (fst (url_download env e r))
                     = Some (path_join (download_folder e) (basename efn))"
    if "basename efn \<in> set ldir" "\<not> is_downloading e"
    using exact [of "e\<lparr>is_downloading := True\<rparr>"] that efn
    by (simp add: url_download_def for_each_future_def)
  have drift: "fst (url_attempt env e r) = None
              \<and> filename (fst (snd (url_attempt env e r))) = Some (path_join (download_folder e) name)
              \<and> events (snd (snd (url_attempt env e r))) =
                  events (snd (ensure_folder env e r))
                  @ [LogInfo (''Download cached (different extension): '' @ url e),
                     LogDebug (''Expected '' @ last (rsplit1 CHR ''.'' efn) @ '', got ''
                               @ last (rsplit1 CHR ''.'' (path_join (download_folder e) name)))]"
    if n: "basename efn \<notin> set ldir"
      and f: "find (\<lambda>f. hd (rsplit1 CHR ''.'' f) = hd (rsplit1 CHR ''.'' (basename efn))) ldir = Some name"
    for name
  proof -
    let ?v = "hd (rsplit1 CHR ''.'' (basename efn))"
    let ?fl = "map (\<lambda>f. hd (rsplit1 CHR ''.'' f)) ldir"
    from find_first_index [OF f]
    have "?v \<in> set ?fl"
      and "py_index ?fl ?v = Inr (length (takeWhile (\<lambda>z. z \<noteq> ?v) ?fl))"
      and "py_nth ldir (length (takeWhile (\<lambda>z. z \<noteq> ?v) ?fl)) = Inr name"
      by (auto simp: py_index_def py_nth_def)
    then show ?thesis
      using att [of e] efn ldir n by (simp add: download_cached_def Let_def emit_def)
  qed
  have miss: "full_fetch env False e (snd (ensure_folder env e r)) (url_attempt env e r)"
    if n: "basename efn \<notin> set ldir"
      and f: "find (\<lambda>f. hd (rsplit1 CHR ''.'' f) = hd (rsplit1 CHR ''.'' (basename efn))) ldir = None"
  proof -
    from find_none_index [OF f]
    have "hd (rsplit1 CHR ''.'' (basename efn)) \<notin> set (map (\<lambda>f. hd (rsplit1 CHR ''.'' f)) ldir)" .
    then have "url_attempt env e r = really_download env False e (snd (ensure_folder env e r))"
      using att [of e] efn ldir n by (simp add: download_cached_def Let_def)
    then show ?thesis
      using really_download_full_fetch [of env False e "snd (ensure_folder env e r)"] by simp
  qed
  show ?thesis using exact [of e] efn run drift miss by blast
qed

theorem cached_download_reuses_file_witness:
  "fetch_calls (snd (url_download tube_env pending_youtube one_waiter)) = 0
   \<and> filename (fst (url_download tube_env pending_youtube one_waiter))
       = Some ''audio_cache/youtube-a-b.m4a''
   \<and> fst (url_attempt empty_tube_env pending_youtube one_waiter) = None
   \<and> filename (fst (snd (url_attempt empty_tube_env pending_youtube one_waiter)))
       = Some ''audio_cache/youtube-a-b.m4a''
   \<and> fetch_calls (snd (snd (url_attempt empty_tube_env pending_youtube one_waiter))) = 1"
proof -
  have h2: "expected_filename pending_youtube = Some ''audio_cache/youtube-a-b.m4a''"
    by (simp add: pending_youtube_def)
  have h3: "split_first CHR ''-'' (basename ''audio_cache/youtube-a-b.m4a'') \<noteq> ''generic''"
    by (simp add: split_first_def basename_def)
  have b: "basename ''audio_cache/youtube-a-b.m4a'' = ''youtube-a-b.m4a''"
    by (simp add: basename_def)
  have n: "\<not> is_downloading pending_youtube"
    by (simp add: pending_youtube_def pending_generic_def)
  have f: "fetch_calls one_waiter = 0"
    by (simp add: fetch_calls_def one_waiter_def)
  have p: "path_join (download_folder pending_youtube) ''youtube-a-b.m4a'' = ''audio_cache/youtube-a-b.m4a''"
    by (simp add: path_join_def pending_youtube_def pending_generic_def)
  \<comment> \<open>the file is there\<close>
  have a1: "path_exists tube_env (download_folder pending_youtube)
            \<or> makedirs tube_env (download_folder pending_youtube) = None"
    by (simp add: tube_env_def hit_env_def cache_env_def)
  have a4: "listdir tube_env (download_folder pending_youtube) = Inr [''youtube-a-b.m4a'']"
    by (simp add: tube_env_def hit_env_def cache_env_def)
  have hit: "fetch_calls (snd (url_download tube_env pending_youtube one_waiter)) = 0
   \<and> filename (fst (url_download tube_env pending_youtube one_waiter))
       = Some ''audio_cache/youtube-a-b.m4a''"
    using cached_download_reuses_file [OF a1 h2 h3 a4, of one_waiter] b n f p by simp
  \<comment> \<open>the folder is empty\<close>
  have b1: "path_exists empty_tube_env (download_folder pending_youtube)
            \<or> makedirs empty_tube_env (download_folder pending_youtube) = None"
    by (simp add: empty_tube_env_def tube_env_def hit_env_def cache_env_def)
  have b4: "listdir empty_tube_env (download_folder pending_youtube) = Inr []"
    by (simp add: empty_tube_env_def tube_env_def hit_env_def cache_env_def)
  have b9: "snd (ensure_folder empty_tube_env pending_youtube one_waiter) = one_waiter"
    by (simp add: ensure_folder_def empty_tube_env_def tube_env_def hit_env_def cache_env_def)
  have ff: "full_fetch empty_tube_env False pending_youtube one_waiter
              (url_attempt empty_tube_env pending_youtube one_waiter)"
    using cached_download_reuses_file [OF b1 h2 h3 b4, of one_waiter] b9 by simp
  have x: "extract_info empty_tube_env (url pending_youtube) True
             = Inr (Some [(''url'', ''http://cdn/live'')])"
    by (simp add: empty_tube_env_def tube_env_def hit_env_def cache_env_def)
  have pf: "prepare_filename empty_tube_env [(''url'', ''http://cdn/live'')]
             = ''audio_cache/youtube-a-b.m4a''"
    by (simp add: empty_tube_env_def)
  have miss: "fst (url_attempt empty_tube_env pending_youtube one_waiter) = None
   \<and> filename (fst (snd (url_attempt empty_tube_env pending_youtube one_waiter)))
       = Some ''audio_cache/youtube-a-b.m4a''
   \<and> fetch_calls (snd (snd (url_attempt empty_tube_env pending_youtube one_waiter))) = 1"
    using ff x pf f by (simp add: full_fetch_def)
  show ?thesis using hit miss by simp
qed

text \<open>C6. In a full fetch an exception of the extractor is raised again wrapped in an
  ExtractionError, and a null result raises an ExtractionError. With the hash asked
  for, and a prepared file name \<open>name.ext\<close>, the file name becomes
  \<open>name-h.ext\<close>, where \<open>h\<close> is what \<^verbatim>\<open>md5sum\<close> returns for the fetched file when
  asked for 8 characters; if a file exists at that path the fetched file is unlinked,
  otherwise it is renamed to that path.\<close>

theorem really_download_outcomes:
  "(\<forall>x. extract_info env (url e) True = Inl x
       \<longrightarrow> fst (really_download env h e r) = Some (ExtractionError x))
   \<and> (extract_info env (url e) True = Inr None
       \<longrightarrow> fst (really_download env h e r)
             = Some (ExtractionErrorMsg ''ytdl broke and hell if I know why''))
   \<and> ((\<forall>res. extract_info env (url e) True \<noteq> Inr (Some res))
       \<longrightarrow> (\<exists>x. fst (really_download env h e r) = Some x \<and> is_extraction_error x))
   \<and> (\<forall>res hsh name ext.
         extract_info env (url e) True = Inr (Some res)
         \<and> prepare_filename env res = name @ ''.'' @ ext \<and> CHR ''.'' \<notin> set ext
         \<and> md5sum env (prepare_filename env res) 8 = Inr hsh
       \<longrightarrow> filename (fst (snd (really_download env True e r)))
             = Some (name @ ''-'' @ hsh @ ''.'' @ ext)
         \<and> (if isfile env (name @ ''-'' @ hsh @ ''.'' @ ext)
            then fst (really_download env True e r) = unlink env (prepare_filename env res)
               \<and> events (snd (snd (really_download env True e r))) =
                   events r @ [LogInfo (''Download started: '' @ url e), ExtractInfo (url e) True,
                               LogInfo (''Download complete: '' @ url e),
                               Unlink (prepare_filename env res)]
            else fst (really_download env True e r)
                   = rename env (prepare_filename env res) (name @ ''-'' @ hsh @ ''.'' @ ext)
               \<and> events (snd (snd (really_download env True e r))) =
                   events r @ [LogInfo (''Download started: '' @ url e), ExtractInfo (url e) True,
                               LogInfo (''Download complete: '' @ url e),
                               Rename (prepare_filename env res) (name @ ''-'' @ hsh @ ''.'' @ ext)]))"
proof -
  have a: "\<forall>x. extract_info env (url e) True = Inl x
       \<longrightarrow> fst (really_download env h e r) = Some (ExtractionError x)"
    by (simp add: really_download_def)
  have b: "extract_info env (url e) True = Inr None
       \<longrightarrow> fst (really_download env h e r)
             = Some (ExtractionErrorMsg ''ytdl broke and hell if I know why'')"
    by (simp add: really_download_def)
  have w: "(\<forall>res. extract_info env (url e) True \<noteq> Inr (Some res))
       \<longrightarrow> (\<exists>x. fst (really_download env h e r) = Some x \<and> is_extraction_error x)"
  proof (cases "extract_info env (url e) True")
    case (Inl x)
    then show ?thesis by (simp add: really_download_def)
  next
    case (Inr result)
    then show ?thesis by (cases result) (simp_all add: really_download_def)
  qed
  have c: "filename (fst (snd (really_download env True e r)))
             = Some (name @ ''-'' @ hsh @ ''.'' @ ext)
         \<and> (if isfile env (name @ ''-'' @ hsh @ ''.'' @ ext)
            then fst (really_download env True e r) = unlink env (prepare_filename env res)
               \<and> events (snd (snd (really_download env True e r))) =
                   events r @ [LogInfo (''Download started: '' @ url e), ExtractInfo (url e) True,
                               LogInfo (''Download complete: '' @ url e),
                               Unlink (prepare_filename env res)]
            else fst (really_download env True e r)
                   = rename env (prepare_filename env res) (name @ ''-'' @ hsh @ ''.'' @ ext)
               \<and> events (snd (snd (really_download env True e r))) =
                   events r @ [LogInfo (''Download started: '' @ url e), ExtractInfo (url e) True,
                               LogInfo (''Download complete: '' @ url e),
                               Rename (prepare_filename env res) (name @ ''-'' @ hsh @ ''.'' @ ext)])"
    if x: "extract_info env (url e) True = Inr (Some res)"
      and p: "prepare_filename env res = name @ ''.'' @ ext" and d: "CHR ''.'' \<notin> set ext"
      and m: "md5sum env (prepare_filename env res) 8 = Inr hsh"
    for res hsh name ext
  proof -
    have hn: "hashed_name hsh (prepare_filename env res) = name @ ''-'' @ hsh @ ''.'' @ ext"
      using hashed_name_splice [OF d, of hsh name] p by simp
    show ?thesis
      using x m hn by (simp add: really_download_def Let_def emit_def)
  qed
  show ?thesis using a b w c by blast
qed

theorem really_download_outcomes_witness:
  "filename (fst (snd (really_download hit_env True pending_generic one_waiter)))
     = Some ''audio_cache/generic-x-song-1a2b3c4d.mp3''
   \<and> fst (really_download hit_env True pending_generic one_waiter) = None
   \<and> events (snd (snd (really_download hit_env True pending_generic one_waiter))) =
       [LogInfo ''Download started: http://host/song.mp3'',
        ExtractInfo ''http://host/song.mp3'' True,
        LogInfo ''Download complete: http://host/song.mp3'',
        Rename ''audio_cache/generic-x-song.mp3'' ''audio_cache/generic-x-song-1a2b3c4d.mp3'']"
proof -
  have x: "extract_info hit_env (url pending_generic) True = Inr (Some [(''url'', ''http://cdn/live'')])"
    by (simp add: hit_env_def cache_env_def)
  have p: "prepare_filename hit_env [(''url'', ''http://cdn/live'')] = ''audio_cache/generic-x-song'' @ ''.'' @ ''mp3''"
    by (simp add: hit_env_def cache_env_def)
  have d: "CHR ''.'' \<notin> set ''mp3''" by simp
  have m: "md5sum hit_env (prepare_filename hit_env [(''url'', ''http://cdn/live'')]) 8 = Inr ''1a2b3c4d''"
    by (simp add: hit_env_def cache_env_def)
  have i: "\<not> isfile hit_env (''audio_cache/generic-x-song'' @ ''-'' @ ''1a2b3c4d'' @ ''.'' @ ''mp3'')"
    by (simp add: hit_env_def cache_env_def)
  have r: "rename hit_env (prepare_filename hit_env [(''url'', ''http://cdn/live'')])
             (''audio_cache/generic-x-song'' @ ''-'' @ ''1a2b3c4d'' @ ''.'' @ ''mp3'') = None"
    by (simp add: hit_env_def cache_env_def)
  have u: "url pending_generic = ''http://host/song.mp3''" "events one_waiter = []"
    by (simp_all add: pending_generic_def one_waiter_def)
  from really_download_outcomes [of hit_env pending_generic True one_waiter] x p d m
  have "filename (fst (snd (really_download hit_env True pending_generic one_waiter)))
             = Some (''audio_cache/generic-x-song'' @ ''-'' @ ''1a2b3c4d'' @ ''.'' @ ''mp3'')
         \<and> (if isfile hit_env (''audio_cache/generic-x-song'' @ ''-'' @ ''1a2b3c4d'' @ ''.'' @ ''mp3'')
            then fst (really_download hit_env True pending_generic one_waiter)
                   = unlink hit_env (prepare_filename hit_env [(''url'', ''http://cdn/live'')])
               \<and> events (snd (snd (really_download hit_env True pending_generic one_waiter))) =
                   events one_waiter @ [LogInfo (''Download started: '' @ url pending_generic),
                     ExtractInfo (url pending_generic) True,
                     LogInfo (''Download complete: '' @ url pending_generic),
                     Unlink (prepare_filename hit_env [(''url'', ''http://cdn/live'')])]
            else fst (really_download hit_env True pending_generic one_waiter)
                   = rename hit_env (prepare_filename hit_env [(''url'', ''http://cdn/live'')])
                       (''audio_cache/generic-x-song'' @ ''-'' @ ''1a2b3c4d'' @ ''.'' @ ''mp3'')
               \<and> events (snd (snd (really_download hit_env True pending_generic one_waiter))) =
                   events one_waiter @ [LogInfo (''Download started: '' @ url pending_generic),
                     ExtractInfo (url pending_generic) True,
                     LogInfo (''Download complete: '' @ url pending_generic),
                     Rename (prepare_filename hit_env [(''url'', ''http://cdn/live'')])
                       (''audio_cache/generic-x-song'' @ ''-'' @ ''1a2b3c4d'' @ ''.'' @ ''mp3'')])"
    by blast
  then show ?thesis using i r u p by simp
qed

subsection \<open>Persistence\<close>

text \<open>C7, as the claim states it, fails. A ready URL entry whose owner metadata has an
  author and no channel is serialized, but its record does not load, whatever the
  resolver knows: the author is looked up through the channel. And a ready URL entry
  whose channel is \<^verbatim>\<open>None\<close> cannot be serialized at all.\<close>

theorem url_roundtrip_author_only_counterexample:
  "is_downloaded ready_author_only
   \<and> get_channel total_playlist ''42'' = Obj ''Channel'' ''42'' ''general''
   \<and> get_member total_playlist (Obj ''Channel'' ''42'' ''general'') ''42'' = Obj ''Member'' ''42'' ''bob''
   \<and> url_roundtrip 1 total_playlist ready_author_only
       = Inr (None, [LogError ''Could not load URLPlaylistEntry'' (KeyError ''channel'')])
   \<and> is_downloaded ready_lost_channel
   \<and> url_roundtrip 1 total_playlist ready_lost_channel = Inl (AttributeError ''id'')"
  by (simp add: is_downloaded_def ready_author_only_def ready_lost_channel_def pending_youtube_def
      pending_generic_def total_playlist_def url_roundtrip_def url_json_def url_deserialize_def
      url_fields_def url_meta_def)

text \<open>C7, amended. Let a URL entry be ready, with owner metadata whose values are all
  live objects of the chat library and which has a channel whenever it has an author,
  and let the resolver find the channel. Then the entry is serialized and its record
  loads, into an entry that has the same file name, is ready and not downloading, so
  that a request for readiness on it resolves at once and schedules no download. And
  every entry that any record loads into is not downloading, and has a file name only
  if the record's downloaded flag is true.\<close>

theorem url_roundtrip_ready:
  assumes ready: "is_downloaded e"
    and live: "\<forall>p \<in> set (meta e). is_obj (snd p)"
    and resolver: "\<forall>c i n. map_of (meta e) ''channel'' = Some (Obj c i n) \<longrightarrow> is_obj (get_channel pl i)"
    and channel: "map_of (meta e) ''author'' \<noteq> None \<longrightarrow> map_of (meta e) ''channel'' \<noteq> None"
  shows "(\<exists>e'. url_roundtrip oid pl e = Inr (Some e', [])
              \<and> filename e' = filename e \<and> is_downloaded e' \<and> \<not> is_downloading e'
              \<and> url e' = url e \<and> expected_filename e' = expected_filename e
              \<and> tasks (snd (snd (get_ready_future e' r))) = tasks r
              \<and> futs (snd (snd (get_ready_future e' r))) (fst (get_ready_future e' r)) = FutResult oid)
       \<and> (\<forall>d' e' lg. url_deserialize oid d' (Some pl) = Inr (Some e', lg)
            \<longrightarrow> \<not> is_downloading e' \<and> (filename e' \<noteq> None \<longrightarrow> d_downloaded d' = Some True))"
proof -
  obtain refs where refs: "meta_json (meta e) = Inr refs"
    using meta_json_live [OF live] by blast
  let ?d = "\<lparr>d_version = Some 1, d_url = Some (url e), d_title = Some (title e),
               d_duration = Some (duration e), d_downloaded = Some (is_downloaded e),
               d_expected_filename = Some (expected_filename e), d_filename = Some (filename e),
               d_meta = Some refs\<rparr>"
  have json: "url_json e = Inr ?d" using refs by (simp add: url_json_def)
  obtain mt where mt: "url_meta pl refs = Inr mt"
    using url_meta_ok [OF refs resolver channel] by blast
  let ?e' = "(url_init oid pl (url e) (title e) (duration e) (expected_filename e) mt)
               \<lparr>filename := filename e, is_downloading := False\<rparr>"
  have f: "url_fields oid pl ?d = Inr ?e'"
    using mt ready by (simp add: url_fields_def)
  have dl: "is_downloaded ?e'"
    using ready by (auto simp: is_downloaded_def url_init_def split: if_splits)
  have first: "\<exists>e'. url_roundtrip oid pl e = Inr (Some e', [])
              \<and> filename e' = filename e \<and> is_downloaded e' \<and> \<not> is_downloading e'
              \<and> url e' = url e \<and> expected_filename e' = expected_filename e
              \<and> tasks (snd (snd (get_ready_future e' r))) = tasks r
              \<and> futs (snd (snd (get_ready_future e' r))) (fst (get_ready_future e' r)) = FutResult oid"
    using f dl json
    by (intro exI [of _ ?e'])
       (simp add: url_roundtrip_def url_deserialize_def url_init_def get_ready_future_def
          new_future_def set_result_def)
  have second: "\<forall>d' e' lg. url_deserialize oid d' (Some pl) = Inr (Some e', lg)
            \<longrightarrow> \<not> is_downloading e' \<and> (filename e' \<noteq> None \<longrightarrow> d_downloaded d' = Some True)"
    by (auto simp: url_deserialize_def url_fields_def url_init_def
             split: sum.splits option.splits if_splits)
  show ?thesis using first second by blast
qed

theorem url_roundtrip_ready_witness:
  "is_downloaded ready_owned
   \<and> (\<exists>e'. url_roundtrip 1 sparse_playlist ready_owned = Inr (Some e', [])
          \<and> filename e' = Some ''audio_cache/youtube-a-b.m4a'' \<and> is_downloaded e')"
proof -
  have h1: "is_downloaded ready_owned"
    by (simp add: is_downloaded_def ready_owned_def pending_youtube_def pending_generic_def)
  have h2: "\<forall>p \<in> set (meta ready_owned). is_obj (snd p)"
    by (simp add: ready_owned_def)
  have h3: "\<forall>c i n. map_of (meta ready_owned) ''channel'' = Some (Obj c i n)
              \<longrightarrow> is_obj (get_channel sparse_playlist i)"
    by (simp add: ready_owned_def sparse_playlist_def)
  have h4: "map_of (meta ready_owned) ''author'' \<noteq> None \<longrightarrow> map_of (meta ready_owned) ''channel'' \<noteq> None"
    by (simp add: ready_owned_def)
  have f: "filename ready_owned = Some ''audio_cache/youtube-a-b.m4a''"
    by (simp add: ready_owned_def)
  show ?thesis
    using h1 url_roundtrip_ready [OF h1 h2 h3 h4, of 1 idle_runtime] f
    by auto
qed

text \<open>C8, as the claim states it, fails: a stream record whose channel the resolver does
  not know, and which names no author, loads, with the stored name of the channel in
  place of the channel; a batch of two records with this one yields two entries.\<close>

theorem deserialize_unresolved_channel_counterexample:
  "get_channel sparse_playlist ''99'' = PyNone
   \<and> stream_deserialize 1 orphan_stream_record (Some sparse_playlist)
       = Inr (Some (stream_init 1 ''http://radio/live'' ''radio'' False None
                      [(''channel'', PyStr ''lost'')]), [])
   \<and> length (load_batch (\<lambda>i d. stream_deserialize i d (Some sparse_playlist)) 0
               [orphan_stream_record\<lparr>sd_meta := Some []\<rparr>, orphan_stream_record]) = 2"
  by (simp add: sparse_playlist_def orphan_stream_record_def stream_deserialize_def
      stream_fields_def stream_meta_of_def ref_id_of_def)

text \<open>C8, amended. With a playlist given, deserialization never raises: a record is
  dropped (nothing is returned and one error line is logged) exactly when a field that
  the deserializer reads is absent, or its channel has no id, or it names an author
  while its channel is absent or not found by the resolver or the author has no id, or,
  for a stream record, the channel is not found and has no stored name; every other
  record loads. In particular a URL record without author loads with whatever the
  resolver answers for the channel, \<^verbatim>\<open>None\<close> included; a stream record without author
  loads with the channel found, or else with its stored name; and a record whose
  channel is found loads with whatever the resolver answers for the author,
  \<^verbatim>\<open>None\<close> included. A batch yields as many entries as it has records that are not
  dropped.\<close>

theorem deserialize_drops_unloadable_record:
  "(url_unloadable pl d \<longrightarrow>
      (\<exists>x. url_deserialize oid d (Some pl)
             = Inr (None, [LogError ''Could not load URLPlaylistEntry'' x])))
   \<and> (\<not> url_unloadable pl d \<longrightarrow> (\<exists>e'. url_deserialize oid d (Some pl) = Inr (Some e', [])))
   \<and> (stream_unloadable pl sd \<longrightarrow>
        (\<exists>x. stream_deserialize oid sd (Some pl)
               = Inr (None, [LogError ''Could not load StreamPlaylistEntry'' x])))
   \<and> (\<not> stream_unloadable pl sd
        \<longrightarrow> (\<exists>e'. stream_deserialize oid sd (Some pl) = Inr (Some e', [])))
   \<and> (\<forall>m cref i. \<not> url_fields_absent d \<and> d_meta d = Some m
          \<and> map_of m ''channel'' = Some cref \<and> ref_id cref = Some i \<and> map_of m ''author'' = None
        \<longrightarrow> (\<exists>e'. url_deserialize oid d (Some pl) = Inr (Some e', [])
                 \<and> meta e' = [(''channel'', get_channel pl i)]))
   \<and> (\<forall>m cref i c j n aref a. \<not> url_fields_absent d \<and> d_meta d = Some m
          \<and> map_of m ''channel'' = Some cref \<and> ref_id cref = Some i
          \<and> get_channel pl i = Obj c j n
          \<and> map_of m ''author'' = Some aref \<and> ref_id aref = Some a
        \<longrightarrow> (\<exists>e'. url_deserialize oid d (Some pl) = Inr (Some e', [])
                 \<and> meta e' = [(''channel'', Obj c j n),
                              (''author'', get_member pl (Obj c j n) a)]))
   \<and> (\<forall>m cref i. \<not> stream_fields_absent sd \<and> sd_meta sd = Some m
          \<and> map_of m ''channel'' = Some cref \<and> ref_id cref = Some i \<and> map_of m ''author'' = None
          \<and> truthy (get_channel pl i)
        \<longrightarrow> (\<exists>e'. stream_deserialize oid sd (Some pl) = Inr (Some e', [])
                 \<and> stream_meta e' = [(''channel'', get_channel pl i)]))
   \<and> (\<forall>m cref i n. \<not> stream_fields_absent sd \<and> sd_meta sd = Some m
          \<and> map_of m ''channel'' = Some cref \<and> ref_id cref = Some i \<and> map_of m ''author'' = None
          \<and> \<not> truthy (get_channel pl i) \<and> ref_name cref = Some n
        \<longrightarrow> (\<exists>e'. stream_deserialize oid sd (Some pl) = Inr (Some e', [])
                 \<and> stream_meta e' = [(''channel'', PyStr n)]))
   \<and> (\<forall>m cref i c j n aref a. \<not> stream_fields_absent sd \<and> sd_meta sd = Some m
          \<and> map_of m ''channel'' = Some cref \<and> ref_id cref = Some i
          \<and> get_channel pl i = Obj c j n
          \<and> map_of m ''author'' = Some aref \<and> ref_id aref = Some a
        \<longrightarrow> (\<exists>e'. stream_deserialize oid sd (Some pl) = Inr (Some e', [])
                 \<and> stream_meta e' = [(''channel'', Obj c j n),
                                     (''author'', get_member pl (Obj c j n) a)]))
   \<and> length (load_batch (\<lambda>i d. url_deserialize i d (Some pl)) oid ds)
       + length (filter (url_unloadable pl) ds) = length ds
   \<and> length (load_batch (\<lambda>i d. stream_deserialize i d (Some pl)) oid sds)
       + length (filter (stream_unloadable pl) sds) = length sds"
proof -
  have u1: "url_unloadable pl d \<longrightarrow>
      (\<exists>x. url_deserialize oid d (Some pl)
             = Inr (None, [LogError ''Could not load URLPlaylistEntry'' x]))"
    using url_unloadable_dropped by blast
  have u2: "\<not> url_unloadable pl d \<longrightarrow> (\<exists>e'. url_deserialize oid d (Some pl) = Inr (Some e', []))"
    using url_loadable_loaded by blast
  have s1: "stream_unloadable pl sd \<longrightarrow>
        (\<exists>x. stream_deserialize oid sd (Some pl)
               = Inr (None, [LogError ''Could not load StreamPlaylistEntry'' x]))"
    using stream_unloadable_dropped by blast
  have s2: "\<not> stream_unloadable pl sd
        \<longrightarrow> (\<exists>e'. stream_deserialize oid sd (Some pl) = Inr (Some e', []))"
    using stream_loadable_loaded by blast
  have u3: "\<forall>m cref i. \<not> url_fields_absent d \<and> d_meta d = Some m
          \<and> map_of m ''channel'' = Some cref \<and> ref_id cref = Some i \<and> map_of m ''author'' = None
        \<longrightarrow> (\<exists>e'. url_deserialize oid d (Some pl) = Inr (Some e', [])
                 \<and> meta e' = [(''channel'', get_channel pl i)])"
    using url_loaded_meta [of d _ pl _ oid] url_meta_channel_only [of _ _ _ pl] by blast
  have u4: "\<forall>m cref i c j n aref a. \<not> url_fields_absent d \<and> d_meta d = Some m
          \<and> map_of m ''channel'' = Some cref \<and> ref_id cref = Some i
          \<and> get_channel pl i = Obj c j n
          \<and> map_of m ''author'' = Some aref \<and> ref_id aref = Some a
        \<longrightarrow> (\<exists>e'. url_deserialize oid d (Some pl) = Inr (Some e', [])
                 \<and> meta e' = [(''channel'', Obj c j n),
                              (''author'', get_member pl (Obj c j n) a)])"
    using url_loaded_meta [of d _ pl _ oid] url_meta_channel_author [of _ _ _ pl] by blast
  have s3: "\<forall>m cref i. \<not> stream_fields_absent sd \<and> sd_meta sd = Some m
          \<and> map_of m ''channel'' = Some cref \<and> ref_id cref = Some i \<and> map_of m ''author'' = None
          \<and> truthy (get_channel pl i)
        \<longrightarrow> (\<exists>e'. stream_deserialize oid sd (Some pl) = Inr (Some e', [])
                 \<and> stream_meta e' = [(''channel'', get_channel pl i)])"
    using stream_loaded_meta [of sd _ pl _ oid] stream_meta_channel_only(1) [of _ _ _ pl] by blast
  have s4: "\<forall>m cref i n. \<not> stream_fields_absent sd \<and> sd_meta sd = Some m
          \<and> map_of m ''channel'' = Some cref \<and> ref_id cref = Some i \<and> map_of m ''author'' = None
          \<and> \<not> truthy (get_channel pl i) \<and> ref_name cref = Some n
        \<longrightarrow> (\<exists>e'. stream_deserialize oid sd (Some pl) = Inr (Some e', [])
                 \<and> stream_meta e' = [(''channel'', PyStr n)])"
    using stream_loaded_meta [of sd _ pl _ oid] stream_meta_channel_only(2) [of _ _ _ pl] by blast
  have s5: "\<forall>m cref i c j n aref a. \<not> stream_fields_absent sd \<and> sd_meta sd = Some m
          \<and> map_of m ''channel'' = Some cref \<and> ref_id cref = Some i
          \<and> get_channel pl i = Obj c j n
          \<and> map_of m ''author'' = Some aref \<and> ref_id aref = Some a
        \<longrightarrow> (\<exists>e'. stream_deserialize oid sd (Some pl) = Inr (Some e', [])
                 \<and> stream_meta e' = [(''channel'', Obj c j n),
                                     (''author'', get_member pl (Obj c j n) a)])"
    using stream_loaded_meta [of sd _ pl _ oid] stream_meta_channel_author [of _ _ _ pl] by blast
  show ?thesis
    by (intro conjI u1 u2 s1 s2 u3 u4 s3 s4 s5 load_url_batch_length load_stream_batch_length)
qed

theorem deserialize_drops_unloadable_record_witness:
  "(\<exists>x. url_deserialize 1 orphan_author_record (Some sparse_playlist)
          = Inr (None, [LogError ''Could not load URLPlaylistEntry'' x]))
   \<and> (\<exists>e'. url_deserialize 1 ghost_author_record (Some sparse_playlist) = Inr (Some e', [])
          \<and> meta e' = [(''channel'', Obj ''Channel'' ''10'' ''general''), (''author'', PyNone)])
   \<and> (\<exists>e'. stream_deserialize 1 orphan_stream_record (Some sparse_playlist) = Inr (Some e', [])
          \<and> stream_meta e' = [(''channel'', PyStr ''lost'')])
   \<and> length (load_batch (\<lambda>i d. url_deserialize i d (Some sparse_playlist)) 1
               [owned_record, orphan_author_record, ghost_author_record]) = 2"
proof -
  let ?lost = "\<lparr>ref_type = Some ''Channel'', ref_id = Some ''99'', ref_name = Some ''lost''\<rparr>"
  let ?general = "\<lparr>ref_type = Some ''Channel'', ref_id = Some ''10'', ref_name = Some ''general''\<rparr>"
  let ?bob = "\<lparr>ref_type = Some ''Member'', ref_id = Some ''42'', ref_name = Some ''bob''\<rparr>"
  let ?ghost = "\<lparr>ref_type = Some ''Member'', ref_id = Some ''77'', ref_name = Some ''ghost''\<rparr>"
  have un: "url_unloadable sparse_playlist orphan_author_record"
    by (simp add: url_unloadable_def url_fields_absent_def url_meta_unloadable_def
        orphan_author_record_def owned_record_def sparse_playlist_def)
  have ok1: "\<not> url_unloadable sparse_playlist owned_record"
    by (simp add: url_unloadable_def url_fields_absent_def url_meta_unloadable_def
        owned_record_def sparse_playlist_def)
  have ok2: "\<not> url_unloadable sparse_playlist ghost_author_record"
    by (simp add: url_unloadable_def url_fields_absent_def url_meta_unloadable_def
        ghost_author_record_def owned_record_def sparse_playlist_def)
  note T1 = deserialize_drops_unloadable_record
             [of sparse_playlist orphan_author_record 1 orphan_stream_record
                 "[owned_record, orphan_author_record, ghost_author_record]" "[]"]
  note T2 = deserialize_drops_unloadable_record
             [of sparse_playlist ghost_author_record 1 orphan_stream_record "[]" "[]"]
  have dropped: "\<exists>x. url_deserialize 1 orphan_author_record (Some sparse_playlist)
          = Inr (None, [LogError ''Could not load URLPlaylistEntry'' x])"
    using T1 un by blast
  have len: "length (load_batch (\<lambda>i d. url_deserialize i d (Some sparse_playlist)) 1
               [owned_record, orphan_author_record, ghost_author_record]) = 2"
    using T1 un ok1 ok2 by simp
  have g: "\<not> url_fields_absent ghost_author_record
           \<and> d_meta ghost_author_record = Some [(''channel'', ?general), (''author'', ?ghost)]
           \<and> map_of [(''channel'', ?general), (''author'', ?ghost)] ''channel'' = Some ?general
           \<and> ref_id ?general = Some ''10''
           \<and> get_channel sparse_playlist ''10'' = Obj ''Channel'' ''10'' ''general''
           \<and> map_of [(''channel'', ?general), (''author'', ?ghost)] ''author'' = Some ?ghost
           \<and> ref_id ?ghost = Some ''77''"
    by (simp add: url_fields_absent_def ghost_author_record_def owned_record_def
        sparse_playlist_def)
  have gm: "get_member sparse_playlist (Obj ''Channel'' ''10'' ''general'') ''77'' = PyNone"
    by (simp add: sparse_playlist_def)
  note T2_author = T2 [THEN conjunct2, THEN conjunct2, THEN conjunct2, THEN conjunct2,
                       THEN conjunct2, THEN conjunct1, rule_format,
                       of "[(''channel'', ?general), (''author'', ?ghost)]" ?general "''10''"
                          "''Channel''" "''10''" "''general''" ?ghost "''77''"]
  from T2_author g have "\<exists>e'. url_deserialize 1 ghost_author_record (Some sparse_playlist) = Inr (Some e', [])
          \<and> meta e' = [(''channel'', Obj ''Channel'' ''10'' ''general''),
                       (''author'', get_member sparse_playlist (Obj ''Channel'' ''10'' ''general'') ''77'')]"
    by blast
  then have ghost: "\<exists>e'. url_deserialize 1 ghost_author_record (Some sparse_playlist) = Inr (Some e', [])
          \<and> meta e' = [(''channel'', Obj ''Channel'' ''10'' ''general''), (''author'', PyNone)]"
    using gm by simp
  have o: "\<not> stream_fields_absent orphan_stream_record
           \<and> sd_meta orphan_stream_record = Some [(''channel'', ?lost)]
           \<and> map_of [(''channel'', ?lost)] ''channel'' = Some ?lost
           \<and> ref_id ?lost = Some ''99''
           \<and> map_of [(''channel'', ?lost)] ''author'' = None
           \<and> \<not> truthy (get_channel sparse_playlist ''99'')
           \<and> ref_name ?lost = Some ''lost''"
    by (simp add: stream_fields_absent_def orphan_stream_record_def sparse_playlist_def)
  note T2_stream = T2 [THEN conjunct2, THEN conjunct2, THEN conjunct2, THEN conjunct2,
                       THEN conjunct2, THEN conjunct2, THEN conjunct2, THEN conjunct1,
                       rule_format, of "[(''channel'', ?lost)]" ?lost "''99''" "''lost''"]
  from T2_stream o have orphan: "\<exists>e'. stream_deserialize 1 orphan_stream_record (Some sparse_playlist)
             = Inr (Some e', [])
          \<and> stream_meta e' = [(''channel'', PyStr ''lost'')]"
    by blast
  show ?thesis using dropped ghost orphan len by simp
qed

text \<open>C10. The record of a stream entry does not depend on the file name, the source
  url, the downloading flag or the registry; it holds the raw url, the title and the
  direct flag. Every entry that a stream record loads into has no source url, is not
  downloading, has no file name when the record is not direct, and the stored raw url
  as file name when it is.\<close>

theorem stream_record_forgets_resolution:
  "stream_json (e\<lparr>filename := fn, source_url := src, is_downloading := b, waiting_futures := ws\<rparr>)
     = stream_json e
   \<and> (\<forall>d. stream_json e = Inr d
         \<longrightarrow> sd_url d = Some (stream_url e) \<and> sd_title d = Some (stream_title e)
           \<and> sd_direct d = Some (direct e))
   \<and> (\<forall>d e' lg. stream_deserialize oid d (Some pl) = Inr (Some e', lg)
         \<longrightarrow> source_url e' = None \<and> \<not> is_downloading e' \<and> sd_url d = Some (stream_url e')
           \<and> (sd_direct d = Some False \<longrightarrow> filename e' = None \<and> \<not> is_downloaded e')
           \<and> (sd_direct d = Some True \<longrightarrow> filename e' = sd_url d))"
proof -
  have a: "stream_json (e\<lparr>filename := fn, source_url := src, is_downloading := b, waiting_futures := ws\<rparr>)
     = stream_json e"
    by (simp add: stream_json_def split: sum.splits)
  have b: "\<forall>d. stream_json e = Inr d
         \<longrightarrow> sd_url d = Some (stream_url e) \<and> sd_title d = Some (stream_title e)
           \<and> sd_direct d = Some (direct e)"
    by (auto simp: stream_json_def split: sum.splits)
  have c: "\<forall>d e' lg. stream_deserialize oid d (Some pl) = Inr (Some e', lg)
         \<longrightarrow> source_url e' = None \<and> \<not> is_downloading e' \<and> sd_url d = Some (stream_url e')
           \<and> (sd_direct d = Some False \<longrightarrow> filename e' = None \<and> \<not> is_downloaded e')
           \<and> (sd_direct d = Some True \<longrightarrow> filename e' = sd_url d)"
    by (auto simp: stream_deserialize_def stream_fields_def stream_init_def is_downloaded_def
             split: sum.splits option.splits)
  show ?thesis using a b c by blast
qed

theorem stream_record_forgets_resolution_witness:
  "filename resolved_stream = Some ''http://cdn/live''
   \<and> source_url resolved_stream = Some ''http://radio/page''
   \<and> stream_roundtrip 1 sparse_playlist resolved_stream
       = Inr (Some (stream_init 1 ''http://radio/live'' ''radio'' True None []), [])
   \<and> filename (stream_init 1 ''http://radio/live'' ''radio'' True None []) = Some ''http://radio/live''
   \<and> source_url (stream_init 1 ''http://radio/live'' ''radio'' True None []) = None"
proof -
  have r: "stream_roundtrip 1 sparse_playlist resolved_stream
       = Inr (Some (stream_init 1 ''http://radio/live'' ''radio'' True None []), [])"
    by (simp add: stream_roundtrip_def stream_json_def resolved_stream_def pending_stream_def
        stream_deserialize_def stream_fields_def stream_meta_of_def)
  have j: "stream_json resolved_stream
             = Inr \<lparr>sd_version = Some 1, sd_url = Some ''http://radio/live'',
                    sd_title = Some ''radio'', sd_direct = Some True, sd_meta = Some []\<rparr>"
    by (simp add: stream_json_def resolved_stream_def pending_stream_def)
  have d: "stream_deserialize 1 \<lparr>sd_version = Some 1, sd_url = Some ''http://radio/live'',
                    sd_title = Some ''radio'', sd_direct = Some True, sd_meta = Some []\<rparr>
             (Some sparse_playlist)
           = Inr (Some (stream_init 1 ''http://radio/live'' ''radio'' True None []), [])"
    using r j by (simp add: stream_roundtrip_def)
  have f: "filename resolved_stream = Some ''http://cdn/live''"
          "source_url resolved_stream = Some ''http://radio/page''"
    by (simp_all add: resolved_stream_def)
  from stream_record_forgets_resolution [where e = resolved_stream and oid = 1
         and pl = sparse_playlist] d
  have "source_url (stream_init 1 ''http://radio/live'' ''radio'' True None []) = None
      \<and> filename (stream_init 1 ''http://radio/live'' ''radio'' True None []) = Some ''http://radio/live''"
    by fastforce
  then show ?thesis using r f by simp
qed

end
